theory Spec2Isabelle
  imports Complex_Main
begin

section \<open>Exceptions and numbers\<close>

text \<open>The exceptions the notebook can raise; an external call fails with \<open>ApiError\<close>.\<close>

datatype error =
    ApiError | TypeError | AttributeError | IndexError | UnboundLocalError
  | ValueError | OverflowError | ZeroDivisionError

text \<open>
  A Python number is an \<^verbatim>\<open>int\<close>, of any size, or a \<^verbatim>\<open>float\<close>. A float is taken as the real
  number it stands for: the rounding of floating-point arithmetic, and a float result beyond
  the float range (Python's \<^verbatim>\<open>inf\<close>), are not modelled. What is modelled is where the
  arithmetic raises: an \<^verbatim>\<open>int\<close> of magnitude \<open>2^1024 - 2^970\<close> or more does not convert to a
  float, and a true division of two \<^verbatim>\<open>int\<close>s whose quotient has that magnitude has no float
  result.
\<close>

datatype number = IntNum int | FloatNum real

fun num_val :: "number \<Rightarrow> real" where
  "num_val (IntNum i) = real_of_int i"
| "num_val (FloatNum x) = x"

definition float_limit :: real where
  "float_limit = 2 ^ 1024 - 2 ^ 970"

text \<open>
  \<^verbatim>\<open>a / b\<close> for an \<^verbatim>\<open>int\<close> \<open>a\<close>. With an \<^verbatim>\<open>int\<close> divisor the division by zero is found first, then
  the quotient that is too large; with a float divisor \<open>a\<close> is converted first.
\<close>

fun int_truediv :: "int \<Rightarrow> number \<Rightarrow> error + real" where
  "int_truediv a (IntNum b) =
     (if b = 0 then Inl ZeroDivisionError
      else if float_limit \<le> \<bar>real_of_int a / real_of_int b\<bar> then Inl OverflowError
      else Inr (real_of_int a / real_of_int b))"
| "int_truediv a (FloatNum y) =
     (if float_limit \<le> \<bar>real_of_int a\<bar> then Inl OverflowError
      else if y = 0 then Inl ZeroDivisionError
      else Inr (real_of_int a / y))"

section \<open>Text helpers of the notebook (str.strip, str.lower, the two regular expressions)\<close>

text \<open>
  Strings are lists of characters; the model covers the ASCII range. Python's
  \<^verbatim>\<open>str.isspace\<close> (used by \<^verbatim>\<open>strip()\<close> and by \<^verbatim>\<open>\s\<close>) holds in that range for the codes
  9..13 and 28..32, \<^verbatim>\<open>\d\<close> for the codes 48..57.
\<close>

definition is_space :: "char \<Rightarrow> bool" where
  "is_space c = (let n = (of_char c :: nat) in (9 \<le> n \<and> n \<le> 13) \<or> (28 \<le> n \<and> n \<le> 32))"

definition is_digit :: "char \<Rightarrow> bool" where
  "is_digit c = (let n = (of_char c :: nat) in 48 \<le> n \<and> n \<le> 57)"

definition lower_char :: "char \<Rightarrow> char" where
  "lower_char c =
     (case map_of (zip ''ABCDEFGHIJKLMNOPQRSTUVWXYZ'' ''abcdefghijklmnopqrstuvwxyz'') c of
        Some l \<Rightarrow> l
      | None \<Rightarrow> c)"

definition lower :: "string \<Rightarrow> string" where
  "lower s = map lower_char s"

definition strip :: "string \<Rightarrow> string" where
  "strip s = rev (dropWhile is_space (rev (dropWhile is_space s)))"

text \<open>
  \<^verbatim>\<open>int(m.group(1))\<close> on a run of decimal digits. The notebook runs under Python 3.11 with the
  default limit of the conversion (\<^verbatim>\<open>sys.get_int_max_str_digits()\<close> is 4300): a run of more
  than 4300 digits, leading zeros counted, raises \<^verbatim>\<open>ValueError\<close>.
\<close>

definition max_str_digits :: nat where
  "max_str_digits = 4300"

definition digits_value :: "string \<Rightarrow> int" where
  "digits_value ds = foldl (\<lambda>acc c. 10 * acc + (int (of_char c) - 48)) 0 ds"

definition int_of_digits :: "string \<Rightarrow> error + int" where
  "int_of_digits ds =
     (if max_str_digits < length ds then Inl ValueError else Inr (digits_value ds))"

text \<open>
  \<^verbatim>\<open>re.sub(r'<think>.*?</think>', '', s, flags=re.DOTALL)\<close>: at the leftmost opening tag that
  has a closing tag somewhere after it, everything up to the nearest closing tag is
  deleted, and the scan goes on behind it.
\<close>

fun after_close :: "string \<Rightarrow> string option" where
  "after_close [] = None"
| "after_close (c # cs) =
     (if take 8 (c # cs) = ''</think>'' then Some (drop 8 (c # cs)) else after_close cs)"

function sub_think :: "string \<Rightarrow> string" where
  "sub_think [] = []"
| "sub_think (c # cs) =
     (if take 7 (c # cs) = ''<think>'' then
        (case after_close (drop 7 (c # cs)) of
           Some rest \<Rightarrow> sub_think rest
         | None \<Rightarrow> c # sub_think cs)
      else c # sub_think cs)"
  by pat_completeness auto
termination
proof (relation "measure length")
  show "wf (measure length)" by simp
next
  fix c :: char and cs rest
  have shorter: "after_close s = Some r \<Longrightarrow> length r < length s" for s r
    by (induction s) (auto split: if_splits)
  assume "after_close (drop 7 (c # cs)) = Some rest"
  then have "length rest < length (drop 7 (c # cs))" by (rule shorter)
  then show "(rest, c # cs) \<in> measure length" by simp
qed simp_all

text \<open>
  \<^verbatim>\<open>re.search(key + r"\s*(\d+)", info)\<close> for a literal \<open>key\<close>: the leftmost position where
  the key stands, followed by any white space and at least one digit; group 1 is the
  longest run of digits there.
\<close>

definition match_here :: "string \<Rightarrow> string \<Rightarrow> string option" where
  "match_here key s =
     (if take (length key) s = key then
        (let ds = takeWhile is_digit (dropWhile is_space (drop (length key) s))
         in if ds = [] then None else Some ds)
      else None)"

fun re_search :: "string \<Rightarrow> string \<Rightarrow> string option" where
  "re_search key [] = match_here key []"
| "re_search key (c # cs) =
     (case match_here key (c # cs) of Some ds \<Rightarrow> Some ds | None \<Rightarrow> re_search key cs)"

section \<open>Parsing the pricing reply\<close>

text \<open>The two \<^verbatim>\<open>int(...)\<close> calls run only when both patterns are found, the budget first.\<close>

definition extract_budget_and_deadline :: "string \<Rightarrow> error + (int option \<times> int option)" where
  "extract_budget_and_deadline info =
     (let budget_match = re_search ''Budget:'' info;
          deadline_match = re_search ''Deadline:'' info
      in case (budget_match, deadline_match) of
           (Some b, Some d) \<Rightarrow>
             (case int_of_digits b of
                Inl e \<Rightarrow> Inl e
              | Inr budget \<Rightarrow>
                  (case int_of_digits d of
                     Inl e \<Rightarrow> Inl e
                   | Inr deadline \<Rightarrow> Inr (Some budget, Some deadline)))
         | _ \<Rightarrow> Inr (None, None))"

text \<open>The digit run that a pattern finds in a text, if it finds one, is within the limit
  of \<^verbatim>\<open>int()\<close>.\<close>

definition run_within_limit :: "string \<Rightarrow> string \<Rightarrow> bool" where
  "run_within_limit key info =
     (case re_search key info of None \<Rightarrow> True | Some ds \<Rightarrow> length ds \<le> max_str_digits)"

section \<open>Data: enriched projects, bids, the text-generation service\<close>

text \<open>
  The dictionary that \<^verbatim>\<open>filter_projects\<close> builds for a surviving project. A field read with
  \<^verbatim>\<open>.get\<close> may hold Python's \<^verbatim>\<open>None\<close>, written \<open>None\<close> here. The client's budget bounds and the
  exchange rate are numbers of the marketplace, within the float range; the bounds are
  taken as real numbers, and the rate keeps its kind, on which the division of the parsed
  budget depends.
\<close>

record enriched_project =
  ep_id :: int
  ep_owner_id :: int
  ep_title :: "string option"
  ep_description :: "string option"
  ep_minimum_budget :: "real option"
  ep_maximum_budget :: "real option"
  ep_currency :: "string option"
  ep_type :: "string option"
  ep_exchange_rate :: "number option"

text \<open>An entry of \<^verbatim>\<open>shortlisted_bids\<close>.\<close>

record bid =
  bid_project_id :: int
  bid_content :: string
  bid_amount :: real
  bid_period :: "int option"
  bid_currency_code :: "string option"

text \<open>
  \<^verbatim>\<open>chain.invoke\<close> is an external call: for each of the three prompts and each project it
  either raises or returns the content of the reply.
\<close>

datatype prompt = MatchPrompt | BudgetPrompt | BidPrompt

type_synonym llm = "prompt \<Rightarrow> enriched_project \<Rightarrow> error + string"

section \<open>Step 2: the service-match qualifier\<close>

definition check_project_match_with_llm :: "llm \<Rightarrow> enriched_project \<Rightarrow> string" where
  "check_project_match_with_llm invoke project =
     (case invoke MatchPrompt project of
        Inr content \<Rightarrow> strip content
      | Inl e \<Rightarrow> [])"

text \<open>The test in the loop body of \<^verbatim>\<open>refine_projects_with_llm\<close>.\<close>

definition is_match :: "llm \<Rightarrow> enriched_project \<Rightarrow> bool" where
  "is_match invoke project =
     (let result = check_project_match_with_llm invoke project;
          result = sub_think result;
          result = strip result
      in lower result = ''match'')"

fun refine_projects_with_llm :: "llm \<Rightarrow> enriched_project list \<Rightarrow> enriched_project list" where
  "refine_projects_with_llm invoke [] = []"
| "refine_projects_with_llm invoke (project # projects) =
     (if is_match invoke project then project # refine_projects_with_llm invoke projects
      else refine_projects_with_llm invoke projects)"

section \<open>Step 3: budget, deadline and bid text\<close>

text \<open>
  The arguments of the call are computed inside the \<^verbatim>\<open>try\<close>: multiplying by a budget or a
  rate that is \<^verbatim>\<open>None\<close> raises there, and the function returns the empty string.
\<close>

definition analyze_budget_deadline :: "llm \<Rightarrow> enriched_project \<Rightarrow> string" where
  "analyze_budget_deadline invoke project =
     (case (ep_minimum_budget project, ep_maximum_budget project, ep_exchange_rate project) of
        (Some mn, Some mx, Some rate) \<Rightarrow>
          (case invoke BudgetPrompt project of
             Inr content \<Rightarrow> strip (sub_think content)
           | Inl e \<Rightarrow> [])
      | _ \<Rightarrow> [])"

definition generate_bid_content :: "llm \<Rightarrow> enriched_project \<Rightarrow> string" where
  "generate_bid_content invoke project =
     (case invoke BidPrompt project of
        Inr content \<Rightarrow> strip (sub_think content)
      | Inl e \<Rightarrow> [])"

text \<open>
  The three \<^verbatim>\<open>if\<close> statements of the loop body of
  \<^verbatim>\<open>shortlist_projects_and_generate_bids\<close>, in their order, on the pricing reply \<open>info\<close>.
  The local variables \<^verbatim>\<open>bid_amount\<close> (here \<open>amount\<close>) and \<^verbatim>\<open>deadline\<close> are threaded
  through as options (\<open>None\<close>: not assigned, or Python's \<^verbatim>\<open>None\<close>). The condition
  \<^verbatim>\<open>if rate\<close> is false for a rate that is \<^verbatim>\<open>None\<close> and for a rate that is zero. An exception of
  the parser or of the division leaves the loop body: nothing catches it.
\<close>

definition fixed_fallback ::
  "enriched_project \<Rightarrow> int option \<Rightarrow> int option \<Rightarrow> error + (real option \<times> int option)" where
  "fixed_fallback project budget deadline =
     (if budget = None \<or> deadline = None then
        (case ep_type project of
           None \<Rightarrow> Inl AttributeError
         | Some ty \<Rightarrow>
             if lower ty = ''fixed'' then
               (case (ep_minimum_budget project, ep_maximum_budget project) of
                  (Some mn, Some mx) \<Rightarrow> Inr (Some (max 70 (mn + mx / 1.5)), Some 7)
                | _ \<Rightarrow> Inl TypeError)
             else Inr (None, deadline))
      else Inr (None, deadline))"

definition parsed_amount ::
  "enriched_project \<Rightarrow> int option \<Rightarrow> int option \<Rightarrow> real option \<Rightarrow> error + real option" where
  "parsed_amount project budget deadline amount =
     (case (budget, deadline) of
        (Some b, Some d) \<Rightarrow>
          (let budget = max 70 b
           in case ep_exchange_rate project of
                None \<Rightarrow> Inr (Some 1000)
              | Some rate \<Rightarrow>
                  if num_val rate = 0 then Inr (Some 1000)
                  else (case int_truediv budget rate of
                          Inl e \<Rightarrow> Inl e
                        | Inr converted \<Rightarrow> Inr (Some converted)))
      | _ \<Rightarrow> Inr amount)"

definition non_fixed_override ::
  "enriched_project \<Rightarrow> real option \<Rightarrow> int option \<Rightarrow> error + (real option \<times> int option)" where
  "non_fixed_override project amount deadline =
     (case ep_type project of
        None \<Rightarrow> Inl AttributeError
      | Some ty \<Rightarrow>
          if lower ty \<noteq> ''fixed'' then
            (case (ep_minimum_budget project, ep_maximum_budget project) of
               (Some min_budget, Some max_budget) \<Rightarrow>
                 Inr (Some ((max_budget + min_budget) / 2), Some 40)
             | _ \<Rightarrow> Inl TypeError)
          else Inr (amount, deadline))"

definition price :: "enriched_project \<Rightarrow> string \<Rightarrow> error + (real \<times> int option)" where
  "price project info =
     (case extract_budget_and_deadline info of
        Inl e \<Rightarrow> Inl e
      | Inr (budget, deadline) \<Rightarrow>
     (case fixed_fallback project budget deadline of
        Inl e \<Rightarrow> Inl e
      | Inr (amount, deadline) \<Rightarrow>
     (case parsed_amount project budget deadline amount of
        Inl e \<Rightarrow> Inl e
      | Inr amount \<Rightarrow>
     (case non_fixed_override project amount deadline of
        Inl e \<Rightarrow> Inl e
      | Inr (None, deadline) \<Rightarrow> Inl UnboundLocalError
      | Inr (Some amount, deadline) \<Rightarrow> Inr (amount, deadline)))))"

text \<open>The whole loop body: the dictionary appended to \<^verbatim>\<open>shortlisted_bids\<close> for one project.\<close>

definition make_bid :: "llm \<Rightarrow> enriched_project \<Rightarrow> error + bid" where
  "make_bid invoke project =
     (case price project (analyze_budget_deadline invoke project) of
        Inl e \<Rightarrow> Inl e
      | Inr (amount, deadline) \<Rightarrow>
          Inr \<lparr>bid_project_id = ep_id project,
               bid_content = generate_bid_content invoke project,
               bid_amount = amount,
               bid_period = deadline,
               bid_currency_code = ep_currency project\<rparr>)"

fun shortlist_projects_and_generate_bids :: "llm \<Rightarrow> enriched_project list \<Rightarrow> error + bid list" where
  "shortlist_projects_and_generate_bids invoke [] = Inr []"
| "shortlist_projects_and_generate_bids invoke (project # projects) =
     (case make_bid invoke project of
        Inl e \<Rightarrow> Inl e
      | Inr b \<Rightarrow>
          (case shortlist_projects_and_generate_bids invoke projects of
             Inl e \<Rightarrow> Inl e
           | Inr bs \<Rightarrow> Inr (b # bs)))"

section \<open>Step 1: the eligibility filter\<close>

text \<open>
  A project of the search result and the records of the two lookups are JSON objects.
  A key read with \<^verbatim>\<open>d.get(key, default)\<close> distinguishes a missing key (the default is
  used) from a key holding \<^verbatim>\<open>null\<close> (\<^verbatim>\<open>None\<close> is returned); a key read with \<^verbatim>\<open>d.get(key)\<close>
  only needs an option.
\<close>

datatype 'a field = Absent | Null | Val 'a

definition get_or :: "'a field \<Rightarrow> 'a \<Rightarrow> 'a option" where
  "get_or f dflt = (case f of Absent \<Rightarrow> Some dflt | Null \<Rightarrow> None | Val v \<Rightarrow> Some v)"

record currency_obj =
  cur_code :: "string field"
  cur_exchange_rate :: "number field"

record upgrades_obj =
  upg_NDA :: "bool field"

record raw_project =
  rp_id :: int
  rp_owner_id :: int
  rp_currency :: "currency_obj field"
  rp_upgrades :: "upgrades_obj field"
  rp_status :: "string field"
  rp_type :: "string option"

record country_obj =
  country_name :: "string field"

record location_obj =
  loc_country :: "country_obj option"

record user_obj =
  user_location :: "location_obj option"

record budget_obj =
  budget_minimum :: "real option"
  budget_maximum :: "real option"

record project_details =
  pd_title :: "string option"
  pd_description :: "string option"
  pd_budget :: "budget_obj option"

text \<open>
  The outside world during one polling cycle: what each external call answers. A call
  that raises answers \<open>Inl\<close>. The identity, placement and seal calls are indexed by the
  project (or bid) they are made for, so that their outcome may differ from draft to draft;
  within one cycle a call repeated with the same argument is answered the same. Each cycle
  of a run has a world of its own.
\<close>

record world =
  search_projects :: "error + raw_project list"
  get_user_by_id :: "int \<Rightarrow> error + user_obj"
  get_projects :: "int \<Rightarrow> error + project_details list"
  chain_invoke :: llm
  get_self_user_id :: "int \<Rightarrow> error + int"
  place_project_bid :: "int \<Rightarrow> error + int option"
  highlight_project_bid :: "int \<Rightarrow> error + string"

definition unwanted_currencies :: "string set" where
  "unwanted_currencies = {''INR'', ''PKR'', ''BDT''}"

definition unwanted_countries :: "string set" where
  "unwanted_countries =
     {''india'', ''bangladesh'', ''pakistan'', ''srilanka'', ''south africa'', ''kenya'',
      ''uganda'', ''eygpt'', ''indonesia'', ''philippines'', ''afganistan''}"

text \<open>\<^verbatim>\<open>user_details.get("location").get("country").get("name", "").lower()\<close>\<close>

definition owner_country :: "user_obj \<Rightarrow> error + string" where
  "owner_country user_details =
     (case user_location user_details of
        None \<Rightarrow> Inl AttributeError
      | Some location \<Rightarrow>
          (case loc_country location of
             None \<Rightarrow> Inl AttributeError
           | Some country \<Rightarrow>
               (case get_or (country_name country) [] of
                  None \<Rightarrow> Inl AttributeError
                | Some name \<Rightarrow> Inr (lower name))))"

text \<open>\<^verbatim>\<open>project.get('currency', {})\<close>: a missing key gives the empty object.\<close>

definition project_currency :: "raw_project \<Rightarrow> error + currency_obj" where
  "project_currency project =
     (case get_or (rp_currency project) \<lparr>cur_code = Absent, cur_exchange_rate = Absent\<rparr> of
        None \<Rightarrow> Inl AttributeError
      | Some currency \<Rightarrow> Inr currency)"

text \<open>\<^verbatim>\<open>project.get('upgrades', False).get('NDA', False)\<close>: the default \<^verbatim>\<open>False\<close> has no \<^verbatim>\<open>get\<close>.\<close>

definition project_nda :: "raw_project \<Rightarrow> error + bool" where
  "project_nda project =
     (case rp_upgrades project of
        Val upgrades \<Rightarrow> Inr (get_or (upg_NDA upgrades) False = Some True)
      | _ \<Rightarrow> Inl AttributeError)"

text \<open>\<^verbatim>\<open>project.get('status', '').lower()\<close>\<close>

definition project_status :: "raw_project \<Rightarrow> error + string" where
  "project_status project =
     (case get_or (rp_status project) [] of
        None \<Rightarrow> Inl AttributeError
      | Some status \<Rightarrow> Inr (lower status))"

text \<open>The dictionary appended for a project that passed the four checks.\<close>

definition enrich :: "raw_project \<Rightarrow> currency_obj \<Rightarrow> project_details list \<Rightarrow> error + enriched_project" where
  "enrich project currency complete_details =
     (case complete_details of
        [] \<Rightarrow> Inl IndexError
      | details # _ \<Rightarrow>
          (case pd_budget details of
             None \<Rightarrow> Inl AttributeError
           | Some budget \<Rightarrow>
               Inr \<lparr>ep_id = rp_id project,
                    ep_owner_id = rp_owner_id project,
                    ep_title = pd_title details,
                    ep_description = pd_description details,
                    ep_minimum_budget = budget_minimum budget,
                    ep_maximum_budget = budget_maximum budget,
                    ep_currency = get_or (cur_code currency) [],
                    ep_type = rp_type project,
                    ep_exchange_rate = get_or (cur_exchange_rate currency) (IntNum 1)\<rparr>))"

text \<open>
  One pass of the loop body of \<^verbatim>\<open>filter_projects\<close>: \<open>Inr None\<close> is \<^verbatim>\<open>continue\<close>, \<open>Inl\<close> an
  exception, which nothing in the function catches.
\<close>

definition filter_project :: "world \<Rightarrow> raw_project \<Rightarrow> error + enriched_project option" where
  "filter_project w project =
     (case get_user_by_id w (rp_owner_id project) of
        Inl e \<Rightarrow> Inl e
      | Inr user_details \<Rightarrow>
     (case owner_country user_details of
        Inl e \<Rightarrow> Inl e
      | Inr country \<Rightarrow>
     if country \<in> unwanted_countries then Inr None else
     (case project_currency project of
        Inl e \<Rightarrow> Inl e
      | Inr currency \<Rightarrow>
     if get_or (cur_code currency) [] \<in> Some ` unwanted_currencies then Inr None else
     (case project_nda project of
        Inl e \<Rightarrow> Inl e
      | Inr nda \<Rightarrow>
     if nda then Inr None else
     (case project_status project of
        Inl e \<Rightarrow> Inl e
      | Inr status \<Rightarrow>
     if status \<noteq> ''active'' then Inr None else
     (case get_projects w (rp_id project) of
        Inl e \<Rightarrow> Inl e
      | Inr complete_details \<Rightarrow>
     (case enrich project currency complete_details of
        Inl e \<Rightarrow> Inl e
      | Inr enriched \<Rightarrow> Inr (Some enriched))))))))"

fun filter_projects :: "world \<Rightarrow> raw_project list \<Rightarrow> error + enriched_project list" where
  "filter_projects w [] = Inr []"
| "filter_projects w (project # projects) =
     (case filter_project w project of
        Inl e \<Rightarrow> Inl e
      | Inr kept \<Rightarrow>
          (case filter_projects w projects of
             Inl e \<Rightarrow> Inl e
           | Inr filtered_projects \<Rightarrow>
               Inr ((case kept of None \<Rightarrow> [] | Some enriched \<Rightarrow> [enriched]) @ filtered_projects)))"

section \<open>Step 5 and the polling loop\<close>

text \<open>
  The run state of the second cell: the set of processed identifiers and the bid counter.
  \<open>calls\<close> records, in order, the external calls made by \<^verbatim>\<open>place_bid\<close>.
\<close>

datatype call =
    GetSelfUserId int
  | PlaceProjectBid int int
  | HighlightProjectBid int

record state =
  processed_project_ids :: "int set"
  bid_counter :: int
  calls :: "call list"

text \<open>
  \<^verbatim>\<open>place_bid\<close> returns nothing and catches every exception; what it does is the calls it
  makes. When the identity call raises it returns at once.
\<close>

definition place_bid :: "world \<Rightarrow> bid \<Rightarrow> call list" where
  "place_bid w b =
     (let project_id = bid_project_id b in
      case get_self_user_id w project_id of
        Inl e \<Rightarrow> [GetSelfUserId project_id]
      | Inr my_user_id \<Rightarrow>
          [GetSelfUserId project_id, PlaceProjectBid project_id my_user_id] @
          (case place_project_bid w project_id of
             Inl e \<Rightarrow> []
           | Inr None \<Rightarrow> []
           | Inr (Some bid_id) \<Rightarrow> [HighlightProjectBid bid_id]))"

text \<open>
  The \<^verbatim>\<open>for bid in shortlisted_bids\<close> loop of the cell, with its \<^verbatim>\<open>break\<close>. The cap
  \<^verbatim>\<open>BID_LIMIT\<close> is a parameter \<open>limit\<close> of the loops; the notebook sets it to 10.
\<close>

fun submit_bids :: "int \<Rightarrow> world \<Rightarrow> bid list \<Rightarrow> state \<Rightarrow> state" where
  "submit_bids limit w [] s = s"
| "submit_bids limit w (b # bs) s =
     (if bid_counter s \<ge> limit then s
      else submit_bids limit w bs
             (s\<lparr>calls := calls s @ place_bid w b, bid_counter := bid_counter s + 1\<rparr>))"

definition new_projects :: "state \<Rightarrow> raw_project list \<Rightarrow> raw_project list" where
  "new_projects s projects = filter (\<lambda>p. rp_id p \<notin> processed_project_ids s) projects"

definition mark_processed :: "raw_project list \<Rightarrow> state \<Rightarrow> state" where
  "mark_processed ps s =
     s\<lparr>processed_project_ids := foldl (\<lambda>ids p. insert (rp_id p) ids) (processed_project_ids s) ps\<rparr>"

text \<open>
  One pass of the body of the \<^verbatim>\<open>while\<close> loop. The result is the state it leaves and the
  exception that escaped it, if any: only the search call is inside a \<^verbatim>\<open>try\<close>.
\<close>

definition cycle :: "int \<Rightarrow> world \<Rightarrow> state \<Rightarrow> state \<times> error option" where
  "cycle limit w s =
     (case search_projects w of
        Inl e \<Rightarrow> (s, None)
      | Inr projects \<Rightarrow>
          (let new = new_projects s projects;
               s = mark_processed new s
           in case filter_projects w new of
                Inl e \<Rightarrow> (s, Some e)
              | Inr filtered_projects \<Rightarrow>
                  (let refined_projects = refine_projects_with_llm (chain_invoke w) filtered_projects
                   in case shortlist_projects_and_generate_bids (chain_invoke w) refined_projects of
                        Inl e \<Rightarrow> (s, Some e)
                      | Inr shortlisted_bids \<Rightarrow> (submit_bids limit w shortlisted_bids s, None))))"

text \<open>
  The \<^verbatim>\<open>while bid_counter < BID_LIMIT\<close> loop over the worlds of the successive cycles. The
  loop may run for ever (a search that always fails, batches with nothing to bid on), so
  a run is observed on a finite list of cycles: \<open>Stopped\<close> when the loop condition fails,
  \<open>Crashed\<close> when an exception escapes, \<open>Polling\<close> when the list ends with the loop still
  going.
\<close>

datatype run = Stopped state | Crashed error state | Polling state

fun main_loop :: "int \<Rightarrow> world list \<Rightarrow> state \<Rightarrow> run" where
  "main_loop limit ws s =
     (if \<not> bid_counter s < limit then Stopped s
      else case ws of
             [] \<Rightarrow> Polling s
           | w # ws' \<Rightarrow>
               (case cycle limit w s of
                  (s', Some e) \<Rightarrow> Crashed e s'
                | (s', None) \<Rightarrow> main_loop limit ws' s'))"

declare main_loop.simps [simp del]

definition initial_state :: state where
  "initial_state = \<lparr>processed_project_ids = {}, bid_counter = 0, calls = []\<rparr>"

definition BID_LIMIT :: int where
  "BID_LIMIT = 10"

text \<open>What is observed of a run: the state it has reached, the calls that reached the
  placement capability, and the calls that open a submission attempt.\<close>

fun run_state :: "run \<Rightarrow> state" where
  "run_state (Stopped s) = s"
| "run_state (Crashed e s) = s"
| "run_state (Polling s) = s"

fun is_placement :: "call \<Rightarrow> bool" where
  "is_placement (PlaceProjectBid project_id bidder_id) = True"
| "is_placement c = False"

fun is_attempt :: "call \<Rightarrow> bool" where
  "is_attempt (GetSelfUserId project_id) = True"
| "is_attempt c = False"

text \<open>The counter is the number of drafts handed to \<open>place_bid\<close>, and bounds the number of
  placement calls.\<close>

definition counted :: "state \<Rightarrow> bool" where
  "counted s \<longleftrightarrow>
     int (length (filter is_attempt (calls s))) = bid_counter s
     \<and> int (length (filter is_placement (calls s))) \<le> bid_counter s"

section \<open>Example inputs\<close>

text \<open>A text-generation service that answers every prompt in the requested format, and one
  that always raises.\<close>

definition quote_llm :: llm where
  "quote_llm p project =
     (case p of
        MatchPrompt \<Rightarrow> Inr ''<think>web shop, fits</think> MATCH''
      | BudgetPrompt \<Rightarrow> Inr ''Budget: 600 USD, Deadline: 10 days''
      | BidPrompt \<Rightarrow> Inr ''First let me show you our previous work'')"

definition failing_llm :: llm where
  "failing_llm p project = Inl ApiError"

definition fixed_project :: enriched_project where
  "fixed_project =
     \<lparr>ep_id = 1, ep_owner_id = 11, ep_title = Some ''Shop'', ep_description = Some ''A web shop'',
      ep_minimum_budget = Some 200, ep_maximum_budget = Some 800, ep_currency = Some ''AUD'',
      ep_type = Some ''fixed'', ep_exchange_rate = Some (FloatNum 2)\<rparr>"

definition hourly_project :: enriched_project where
  "hourly_project =
     \<lparr>ep_id = 2, ep_owner_id = 12, ep_title = Some ''Logo'', ep_description = Some ''A logo'',
      ep_minimum_budget = Some 10, ep_maximum_budget = Some 20, ep_currency = Some ''USD'',
      ep_type = Some ''hourly'', ep_exchange_rate = Some (FloatNum 1)\<rparr>"

text \<open>A fixed-price project whose client asks for at least 1000, and the drafts that
  \<open>make_bid\<close> builds for it and for the hourly project under \<open>quote_llm\<close>.\<close>

definition costly_fixed_project :: enriched_project where
  "costly_fixed_project =
     \<lparr>ep_id = 3, ep_owner_id = 13, ep_title = Some ''Portal'', ep_description = Some ''A portal'',
      ep_minimum_budget = Some 1000, ep_maximum_budget = Some 2000, ep_currency = Some ''USD'',
      ep_type = Some ''fixed'', ep_exchange_rate = Some (FloatNum 1)\<rparr>"

definition hourly_bid :: bid where
  "hourly_bid =
     \<lparr>bid_project_id = 2, bid_content = ''First let me show you our previous work'',
      bid_amount = 15, bid_period = Some 40, bid_currency_code = Some ''USD''\<rparr>"

definition costly_fixed_bid :: bid where
  "costly_fixed_bid =
     \<lparr>bid_project_id = 3, bid_content = ''First let me show you our previous work'',
      bid_amount = 600, bid_period = Some 10, bid_currency_code = Some ''USD''\<rparr>"

text \<open>
  Listed projects that pass the filter, the records the lookups return for them, and a world
  in which three of them are found: the identity call fails for project 1, the placement
  call for project 2. In the two variants one lookup of the filter fails for project 1.
\<close>

definition canadian_owner :: user_obj where
  "canadian_owner = \<lparr>user_location = Some \<lparr>loc_country = Some \<lparr>country_name = Val ''Canada''\<rparr>\<rparr>\<rparr>"

definition listed_project :: "int \<Rightarrow> raw_project" where
  "listed_project i =
     \<lparr>rp_id = i, rp_owner_id = 100 + i,
      rp_currency = Val \<lparr>cur_code = Val ''AUD'', cur_exchange_rate = Val (FloatNum 2)\<rparr>,
      rp_upgrades = Val \<lparr>upg_NDA = Val False\<rparr>,
      rp_status = Val ''active'', rp_type = Some ''fixed''\<rparr>"

definition shop_details :: project_details where
  "shop_details =
     \<lparr>pd_title = Some ''Shop'', pd_description = Some ''A web shop'',
      pd_budget = Some \<lparr>budget_minimum = Some 200, budget_maximum = Some 800\<rparr>\<rparr>"

definition enriched_listing :: "int \<Rightarrow> enriched_project" where
  "enriched_listing i =
     \<lparr>ep_id = i, ep_owner_id = 100 + i, ep_title = Some ''Shop'', ep_description = Some ''A web shop'',
      ep_minimum_budget = Some 200, ep_maximum_budget = Some 800, ep_currency = Some ''AUD'',
      ep_type = Some ''fixed'', ep_exchange_rate = Some (FloatNum 2)\<rparr>"

definition draft :: "int \<Rightarrow> bid" where
  "draft i =
     \<lparr>bid_project_id = i, bid_content = ''First let me show you our previous work'',
      bid_amount = 300, bid_period = Some 10, bid_currency_code = Some ''AUD''\<rparr>"

definition demo_world :: world where
  "demo_world =
     \<lparr>search_projects = Inr [listed_project 1, listed_project 2, listed_project 3],
      get_user_by_id = (\<lambda>user_id. Inr canadian_owner),
      get_projects = (\<lambda>project_id. Inr [shop_details]),
      chain_invoke = quote_llm,
      get_self_user_id = (\<lambda>project_id. if project_id = 1 then Inl ApiError else Inr 7),
      place_project_bid = (\<lambda>project_id. if project_id = 2 then Inl ApiError else Inr (Some (1000 + project_id))),
      highlight_project_bid = (\<lambda>bid_id. Inr ''sealed'')\<rparr>"

definition owner_lookup_fails :: world where
  "owner_lookup_fails =
     demo_world\<lparr>get_user_by_id := (\<lambda>user_id. if user_id = 101 then Inl ApiError else Inr canadian_owner)\<rparr>"

definition details_lookup_fails :: world where
  "details_lookup_fails =
     demo_world\<lparr>get_projects := (\<lambda>project_id. if project_id = 1 then Inl ApiError else Inr [shop_details])\<rparr>"

text \<open>
  Pricing replies in the requested format whose budget is a run of 309 nines, beyond the
  float range, or a run of 4301 digits, beyond what \<^verbatim>\<open>int()\<close> converts; and a service that
  gives a chosen pricing reply.
\<close>

definition huge_reply :: string where
  "huge_reply = ''Budget: '' @ replicate 309 (CHR ''9'') @ '' USD, Deadline: 10 days''"

definition long_reply :: string where
  "long_reply = ''Budget: '' @ replicate 4301 (CHR ''1'') @ '' USD, Deadline: 10 days''"

definition reply_llm :: "string \<Rightarrow> llm" where
  "reply_llm reply p project =
     (case p of BudgetPrompt \<Rightarrow> Inr reply | _ \<Rightarrow> quote_llm p project)"

text \<open>A listed project whose currency has no \<^verbatim>\<open>exchange_rate\<close> key, and what the filter makes
  of it.\<close>

definition unrated_project :: raw_project where
  "unrated_project =
     (listed_project 4)\<lparr>rp_currency := Val \<lparr>cur_code = Val ''AUD'', cur_exchange_rate = Absent\<rparr>\<rparr>"

definition unrated_enriched :: enriched_project where
  "unrated_enriched = (enriched_listing 4)\<lparr>ep_exchange_rate := Some (IntNum 1)\<rparr>"

section \<open>Helper lemmas\<close>

lemmas text_defs = is_space_def is_digit_def lower_def lower_char_def strip_def int_of_digits_def
  digits_value_def max_str_digits_def match_here_def extract_budget_and_deadline_def

lemmas price_defs = price_def fixed_fallback_def parsed_amount_def non_fixed_override_def
  make_bid_def analyze_budget_deadline_def generate_bid_content_def

lemma float_limit_large: "10 ^ 308 < float_limit"
  by (simp add: float_limit_def)

lemma int_truediv_in_range:
  assumes "num_val r \<noteq> 0" and "\<bar>real_of_int a\<bar> < float_limit"
  shows "int_truediv a r = Inr (real_of_int a / num_val r)"
proof (cases r)
  case (IntNum b)
  with assms(1) have "b \<noteq> 0" by simp
  then have "1 \<le> \<bar>b\<bar>" by linarith
  then have "1 \<le> \<bar>real_of_int b\<bar>" by (metis of_int_1 of_int_abs of_int_le_iff)
  then have "\<bar>real_of_int a\<bar> * 1 \<le> \<bar>real_of_int a\<bar> * \<bar>real_of_int b\<bar>"
    by (intro mult_left_mono) simp_all
  then have "\<bar>real_of_int a / real_of_int b\<bar> \<le> \<bar>real_of_int a\<bar>"
    using \<open>b \<noteq> 0\<close> by (simp add: abs_divide divide_le_eq)
  with assms(2) IntNum \<open>b \<noteq> 0\<close> show ?thesis by simp
next
  case (FloatNum y)
  with assms show ?thesis by simp
qed

lemma int_truediv_Inr:
  "int_truediv a r = Inr q \<Longrightarrow> q = real_of_int a / num_val r \<and> num_val r \<noteq> 0"
  by (cases r) (auto split: if_splits)

lemma digits_value_nines: "digits_value (replicate n (CHR ''9'')) = 10 ^ n - 1"
proof -
  have "foldl (\<lambda>acc c. 10 * acc + (int (of_char c) - 48)) a (replicate n (CHR ''9''))
          = a * 10 ^ n + (10 ^ n - 1)" for a
    by (induction n arbitrary: a) (simp_all add: algebra_simps)
  from this [of 0] show ?thesis by (simp add: digits_value_def)
qed

lemma sub_think_plain: "CHR ''<'' \<notin> set s \<Longrightarrow> sub_think s = s"
proof (induction s)
  case Nil
  show ?case by simp
next
  case (Cons c s)
  then have "c \<noteq> CHR ''<''" by auto
  then have "take 7 (c # s) \<noteq> ''<think>''" by auto
  with Cons show ?case by (simp del: take_Cons_numeral)
qed

lemma strip_plain:
  "s \<noteq> [] \<Longrightarrow> \<not> is_space (hd s) \<Longrightarrow> \<not> is_space (last s) \<Longrightarrow> strip s = s"
proof -
  assume s: "s \<noteq> []" and h: "\<not> is_space (hd s)" and l: "\<not> is_space (last s)"
  from s h have 1: "dropWhile is_space s = s" by (cases s) simp_all
  from s l have "\<not> is_space (hd (rev s))" by (simp add: hd_rev)
  with s have 2: "dropWhile is_space (rev s) = rev s" by (cases "rev s") simp_all
  show ?thesis by (simp add: strip_def 1 2)
qed

lemma re_search_skip:
  "\<forall>c\<in>set pre. c \<noteq> k \<Longrightarrow> re_search (k # key) (pre @ rest) = re_search (k # key) rest"
  by (induction pre) (auto simp: match_here_def)

lemma digit_not_space: "is_digit c \<Longrightarrow> \<not> is_space c"
  by (auto simp: is_digit_def is_space_def Let_def)

lemma match_here_found:
  assumes "ds \<noteq> []" "\<forall>c\<in>set ds. is_digit c" "\<forall>c\<in>set ws. is_space c"
  shows "\<exists>r. match_here key (key @ ws @ ds @ post) = Some r"
proof -
  obtain d ds' where ds: "ds = d # ds'" using assms(1) by (cases ds) auto
  have d: "is_digit d" "\<not> is_space d" using assms(2) ds digit_not_space by auto
  have "dropWhile is_space (ws @ ds @ post) = ds @ post"
    using assms(3) d ds by (simp add: dropWhile_append2)
  then show ?thesis
    using d ds by (simp add: match_here_def)
qed

lemma re_search_match_here: "match_here key s = Some r \<Longrightarrow> re_search key s = Some r"
  by (cases s) auto

lemma re_search_found:
  assumes "ds \<noteq> []" "\<forall>c\<in>set ds. is_digit c" "\<forall>c\<in>set ws. is_space c"
  shows "\<exists>r. re_search key (pre @ key @ ws @ ds @ post) = Some r"
proof (induction pre)
  case Nil
  from match_here_found [OF assms]
  obtain r where "match_here key (key @ ws @ ds @ post) = Some r" by blast
  then show ?case by (auto dest: re_search_match_here)
next
  case (Cons c pre)
  then show ?case by (auto split: option.splits)
qed

lemma extract_cases:
  "extract_budget_and_deadline info = Inr (None, None)
   \<or> (\<exists>b d. extract_budget_and_deadline info = Inr (Some b, Some d))
   \<or> extract_budget_and_deadline info = Inl ValueError"
  by (auto simp: extract_budget_and_deadline_def int_of_digits_def split: option.splits)

lemma extract_missing:
  "re_search ''Budget:'' info = None \<or> re_search ''Deadline:'' info = None \<Longrightarrow>
   extract_budget_and_deadline info = Inr (None, None)"
  by (auto simp: extract_budget_and_deadline_def split: option.splits)

lemma extract_found:
  "re_search ''Budget:'' info = Some b \<Longrightarrow> re_search ''Deadline:'' info = Some d \<Longrightarrow>
   length b \<le> max_str_digits \<Longrightarrow> length d \<le> max_str_digits \<Longrightarrow>
   extract_budget_and_deadline info = Inr (Some (digits_value b), Some (digits_value d))"
  by (simp add: extract_budget_and_deadline_def int_of_digits_def)

lemma extract_too_long:
  "re_search ''Budget:'' info = Some b \<Longrightarrow> re_search ''Deadline:'' info = Some d \<Longrightarrow>
   max_str_digits < length b \<or> max_str_digits < length d \<Longrightarrow>
   extract_budget_and_deadline info = Inl ValueError"
  by (auto simp: extract_budget_and_deadline_def int_of_digits_def)

lemma price_fixed_parsed:
  assumes "ep_type project = Some ty" "lower ty = ''fixed''"
      and "extract_budget_and_deadline info = Inr (Some B, Some D)"
  shows "price project info =
           (case ep_exchange_rate project of
              None \<Rightarrow> Inr (1000, Some D)
            | Some R \<Rightarrow>
                if num_val R = 0 then Inr (1000, Some D)
                else (case int_truediv (max 70 B) R of
                        Inl e \<Rightarrow> Inl e
                      | Inr q \<Rightarrow> Inr (q, Some D)))"
  using assms
  by (auto simp: price_def fixed_fallback_def parsed_amount_def non_fixed_override_def
      split: option.splits sum.splits)

lemma price_fixed_unparsed:
  assumes "ep_type project = Some ty" "lower ty = ''fixed''"
      and "extract_budget_and_deadline info = Inr (None, None)"
      and "ep_minimum_budget project = Some mn" "ep_maximum_budget project = Some mx"
  shows "price project info = Inr (max 70 (mn + mx / 1.5), Some 7)"
  using assms by (simp add: price_def fixed_fallback_def parsed_amount_def non_fixed_override_def)



lemma price_non_fixed_Inr:
  assumes "ep_type project = Some ty" "lower ty \<noteq> ''fixed''"
      and "ep_minimum_budget project = Some mn" "ep_maximum_budget project = Some mx"
      and "price project info = Inr (amount, period)"
  shows "amount = (mn + mx) / 2 \<and> period = Some 40"
  using assms
  by (auto simp: price_def non_fixed_override_def split: sum.splits prod.splits option.splits)

text \<open>The draft carries the amount and the period that \<open>price\<close> computes from the reply of
  \<open>analyze_budget_deadline\<close>.\<close>

lemma make_bid_price:
  "map_sum id (\<lambda>b. (bid_amount b, bid_period b)) (make_bid invoke project) =
   price project (analyze_budget_deadline invoke project)"
  by (auto simp: make_bid_def split: sum.splits)

lemma make_bid_Inr:
  "price project (analyze_budget_deadline invoke project) = Inr (amount, period) \<Longrightarrow>
   \<exists>b. make_bid invoke project = Inr b \<and> bid_project_id b = ep_id project
       \<and> bid_amount b = amount \<and> bid_period b = period"
  by (simp add: make_bid_def)

lemma make_bid_Inl:
  "price project (analyze_budget_deadline invoke project) = Inl e \<Longrightarrow>
   make_bid invoke project = Inl e"
  by (simp add: make_bid_def)

text \<open>With a rate that is \<^verbatim>\<open>None\<close> the pricing call is never made: its reply is empty and
  does not parse. The same holds of a budget bound that is \<^verbatim>\<open>None\<close>.\<close>

lemma analyze_without_rate:
  "ep_exchange_rate project = None \<Longrightarrow> analyze_budget_deadline invoke project = []"
  by (simp add: analyze_budget_deadline_def split: option.splits)

lemma analyze_without_bound:
  "ep_minimum_budget project = None \<or> ep_maximum_budget project = None \<Longrightarrow>
   analyze_budget_deadline invoke project = []"
  by (auto simp: analyze_budget_deadline_def split: option.splits)

lemma extract_empty: "extract_budget_and_deadline [] = Inr (None, None)"
  by (simp add: extract_budget_and_deadline_def match_here_def)

lemma refine_filter: "refine_projects_with_llm invoke projects = filter (is_match invoke) projects"
  by (induction projects) auto

text \<open>The two example replies: both fields are found, the budget is the long run.\<close>

lemma nine_facts: "is_digit (CHR ''9'')" "\<not> is_space (CHR ''9'')" "is_digit (CHR ''1'')" "\<not> is_space (CHR ''1'')"
  by (simp_all add: is_digit_def is_space_def)

lemma re_search_budget_run:
  assumes "is_digit c" "0 < n"
  shows "re_search ''Budget:'' (''Budget: '' @ replicate n c @ '' USD, Deadline: 10 days'')
           = Some (replicate n c)"
proof -
  from assms(2) obtain m where n: "n = Suc m" by (cases n) auto
  have sp: "\<not> is_space c" using assms(1) by (rule digit_not_space)
  have "takeWhile is_digit '' USD, Deadline: 10 days'' = []"
    by (simp add: is_digit_def)
  moreover have "takeWhile is_digit (replicate n c @ '' USD, Deadline: 10 days'')
          = replicate n c @ takeWhile is_digit '' USD, Deadline: 10 days''"
    using assms(1) by (intro takeWhile_append2) simp
  ultimately have "takeWhile is_digit (replicate n c @ '' USD, Deadline: 10 days'') = replicate n c"
    by simp
  then have "match_here ''Budget:'' (''Budget: '' @ replicate n c @ '' USD, Deadline: 10 days'')
          = Some (replicate n c)"
    using sp n by (simp add: match_here_def is_space_def)
  then show ?thesis by (rule re_search_match_here)
qed

lemma re_search_deadline_run:
  assumes "is_digit c"
  shows "re_search ''Deadline:'' (''Budget: '' @ replicate n c @ '' USD, Deadline: 10 days'')
           = Some ''10''"
proof -
  have c: "c \<noteq> CHR ''D''" using assms by (auto simp: is_digit_def)
  have "re_search ''Deadline:'' ((''Budget: '' @ replicate n c) @ '' USD, Deadline: 10 days'')
          = re_search ''Deadline:'' '' USD, Deadline: 10 days''"
    using c by (intro re_search_skip) auto
  also have "\<dots> = Some ''10''"
    by (simp add: match_here_def is_digit_def is_space_def)
  finally show ?thesis by simp
qed

lemma extract_huge_reply:
  "extract_budget_and_deadline huge_reply = Inr (Some (10 ^ 309 - 1), Some 10)"
proof -
  have "extract_budget_and_deadline huge_reply
          = Inr (Some (digits_value (replicate 309 (CHR ''9''))), Some (digits_value ''10''))"
    unfolding huge_reply_def
    by (rule extract_found [OF re_search_budget_run re_search_deadline_run])
       (simp_all add: nine_facts max_str_digits_def)
  then show ?thesis by (simp add: digits_value_nines) (simp add: digits_value_def)
qed

lemma extract_long_reply: "extract_budget_and_deadline long_reply = Inl ValueError"
  unfolding long_reply_def
  by (rule extract_too_long [OF re_search_budget_run re_search_deadline_run])
     (simp_all add: nine_facts max_str_digits_def)

lemma reply_plain:
  assumes "is_digit c" "0 < n"
  shows "strip (sub_think (''Budget: '' @ replicate n c @ '' USD, Deadline: 10 days''))
           = ''Budget: '' @ replicate n c @ '' USD, Deadline: 10 days''"
proof -
  have c: "c \<noteq> CHR ''<''" using assms by (auto simp: is_digit_def)
  then have "sub_think (''Budget: '' @ replicate n c @ '' USD, Deadline: 10 days'')
          = ''Budget: '' @ replicate n c @ '' USD, Deadline: 10 days''"
    by (intro sub_think_plain) auto
  moreover have "strip (''Budget: '' @ replicate n c @ '' USD, Deadline: 10 days'')
          = ''Budget: '' @ replicate n c @ '' USD, Deadline: 10 days''"
    by (rule strip_plain) (simp_all add: is_space_def)
  ultimately show ?thesis by simp
qed

lemma analyze_reply_llm:
  assumes "ep_minimum_budget project = Some mn" "ep_maximum_budget project = Some mx"
      and "ep_exchange_rate project = Some R"
  shows "analyze_budget_deadline (reply_llm huge_reply) project = huge_reply"
    and "analyze_budget_deadline (reply_llm long_reply) project = long_reply"
  using assms reply_plain [of "CHR ''9''" 309] reply_plain [of "CHR ''1''" 4301]
  by (simp_all add: analyze_budget_deadline_def reply_llm_def huge_reply_def long_reply_def nine_facts)

lemmas filter_defs = filter_project_def owner_country_def project_currency_def project_nda_def
  project_status_def enrich_def get_or_def unwanted_countries_def unwanted_currencies_def

lemmas world_defs = demo_world_def canadian_owner_def listed_project_def shop_details_def

lemma price_floor:
  assumes "price project info = Inr (amount, period)" and "ep_type project = Some ty"
  shows "(lower ty = ''fixed'' \<and> extract_budget_and_deadline info = Inr (None, None) \<longrightarrow>
            70 \<le> amount
            \<and> (\<forall>mn mx. ep_minimum_budget project = Some mn \<and> ep_maximum_budget project = Some mx
                  \<and> 0 \<le> mx \<longrightarrow> mn \<le> amount))
       \<and> (lower ty = ''fixed'' \<and> extract_budget_and_deadline info \<noteq> Inr (None, None) \<longrightarrow>
            (\<forall>R. ep_exchange_rate project = Some R \<and> 0 < num_val R \<longrightarrow> 70 \<le> amount * num_val R)
            \<and> (\<forall>R. ep_exchange_rate project = Some R \<and> num_val R = 0 \<longrightarrow> amount = 1000))
       \<and> (lower ty \<noteq> ''fixed'' \<longrightarrow>
            (\<forall>mn mx. ep_minimum_budget project = Some mn \<and> ep_maximum_budget project = Some mx \<longrightarrow>
               amount = (mn + mx) / 2 \<and> (mn \<le> mx \<longrightarrow> mn \<le> amount)))"
proof (intro conjI impI allI)
  assume a: "lower ty = ''fixed'' \<and> extract_budget_and_deadline info = Inr (None, None)"
  with assms obtain mn mx where b: "ep_minimum_budget project = Some mn" "ep_maximum_budget project = Some mx"
    by (auto simp: price_def fixed_fallback_def split: option.splits)
  from price_fixed_unparsed [OF assms(2) _ _ b, of info] a assms(1)
  have amt: "amount = max 70 (mn + mx / 1.5)" by simp
  then show "70 \<le> amount" by simp
  fix mn' mx'
  assume "ep_minimum_budget project = Some mn' \<and> ep_maximum_budget project = Some mx' \<and> 0 \<le> mx'"
  with b amt show "mn' \<le> amount" by (auto simp: max_def)
next
  fix R
  assume a: "lower ty = ''fixed'' \<and> extract_budget_and_deadline info \<noteq> Inr (None, None)"
     and r: "ep_exchange_rate project = Some R \<and> 0 < num_val R"
  from assms(1) have "\<not> isl (extract_budget_and_deadline info)"
    by (auto simp: price_def split: sum.splits)
  with a extract_cases [of info]
  obtain B D where "extract_budget_and_deadline info = Inr (Some B, Some D)" by auto
  from price_fixed_parsed [OF assms(2) _ this] a assms(1) r
  have "int_truediv (max 70 B) R = Inr amount" by (auto split: sum.splits)
  then have "amount = real_of_int (max 70 B) / num_val R" by (auto dest: int_truediv_Inr)
  with r show "70 \<le> amount * num_val R" by simp
next
  fix R
  assume a: "lower ty = ''fixed'' \<and> extract_budget_and_deadline info \<noteq> Inr (None, None)"
     and r: "ep_exchange_rate project = Some R \<and> num_val R = 0"
  from assms(1) have "\<not> isl (extract_budget_and_deadline info)"
    by (auto simp: price_def split: sum.splits)
  with a extract_cases [of info]
  obtain B D where "extract_budget_and_deadline info = Inr (Some B, Some D)" by auto
  from price_fixed_parsed [OF assms(2) _ this] a assms(1) r
  show "amount = 1000" by auto
next
  fix mn mx
  assume a: "lower ty \<noteq> ''fixed''"
     and b: "ep_minimum_budget project = Some mn \<and> ep_maximum_budget project = Some mx"
  from price_non_fixed_Inr [OF assms(2) a _ _ assms(1), of mn mx] b
  show "amount = (mn + mx) / 2" by simp
  then show "mn \<le> mx \<Longrightarrow> mn \<le> amount" by simp
qed

lemma filter_project_unrated:
  "filter_project demo_world unrated_project = Inr (Some unrated_enriched)"
  by (simp add: filter_defs world_defs unrated_project_def unrated_enriched_def enriched_listing_def
      lower_def lower_char_def)

text \<open>
  White space around a text does not change which \<^verbatim>\<open><think>\<close> blocks are deleted, so the
  first \<^verbatim>\<open>strip()\<close> of the qualifier (in \<open>check_project_match_with_llm\<close>) is absorbed by the
  second one.
\<close>

lemma take_pattern_append:
  assumes "\<forall>c\<in>set ws. is_space c" and "\<forall>c\<in>set pat. \<not> is_space c"
  shows "(take (length pat) (s @ ws) = pat) = (take (length pat) s = pat)"
proof (cases "length pat \<le> length s")
  case True
  then show ?thesis by simp
next
  case False
  then have short: "length s < length pat" by simp
  have "take (length pat) (s @ ws) \<noteq> pat"
  proof
    assume eq: "take (length pat) (s @ ws) = pat"
    with short have pat: "pat = s @ take (length pat - length s) ws" by simp
    then have "length pat = length s + length (take (length pat - length s) ws)"
      by (metis length_append)
    with short have "take (length pat - length s) ws \<noteq> []" by auto
    then obtain c where c: "c \<in> set (take (length pat - length s) ws)"
      by (meson last_in_set)
    then have "c \<in> set ws" by (rule in_set_takeD)
    moreover from c pat have "c \<in> set pat" by (metis Un_iff set_append)
    ultimately show False using assms by blast
  qed
  moreover from short have "take (length pat) s \<noteq> pat" by auto
  ultimately show ?thesis by simp
qed

lemma tag_no_space: "\<forall>c\<in>set ''<think>''. \<not> is_space c" "\<forall>c\<in>set ''</think>''. \<not> is_space c"
  by (simp_all add: is_space_def)

lemma take_eq_length: "take n s = pat \<Longrightarrow> length pat = n \<Longrightarrow> n \<le> length s"
  by (metis length_take min.cobounded1)

lemma take7_append:
  assumes "\<forall>c\<in>set ws. is_space c"
  shows "(take 7 (s @ ws) = ''<think>'') = (take 7 s = ''<think>'')"
proof -
  have "length ''<think>'' = 7" by simp
  with take_pattern_append [OF assms tag_no_space(1), of s] show ?thesis by (simp only:)
qed

lemma take8_append:
  assumes "\<forall>c\<in>set ws. is_space c"
  shows "(take 8 (s @ ws) = ''</think>'') = (take 8 s = ''</think>'')"
proof -
  have "length ''</think>'' = 8" by simp
  with take_pattern_append [OF assms tag_no_space(2), of s] show ?thesis by (simp only:)
qed

lemma after_close_spaces: "\<forall>c\<in>set ws. is_space c \<Longrightarrow> after_close ws = None"
proof (induction ws)
  case Nil
  then show ?case by simp
next
  case (Cons c ws)
  have "take 8 ([] @ c # ws) \<noteq> ''</think>''"
    using take8_append [of "c # ws" "[]"] Cons.prems by simp
  with Cons show ?case by simp
qed

lemma after_close_append:
  assumes "\<forall>c\<in>set ws. is_space c"
  shows "after_close (s @ ws) = map_option (\<lambda>r. r @ ws) (after_close s)"
proof (induction s)
  case Nil
  then show ?case using after_close_spaces [OF assms] by simp
next
  case (Cons c s)
  have t: "(take 8 (c # (s @ ws)) = ''</think>'') = (take 8 (c # s) = ''</think>'')"
    using take8_append [OF assms, of "c # s"] by (simp only: append_Cons)
  show ?case
  proof (cases "take 8 (c # s) = ''</think>''")
    case True
    then have "8 \<le> length (c # s)" by (rule take_eq_length) simp
    then have d: "drop 8 (c # (s @ ws)) = drop 8 (c # s) @ ws"
      using drop_append [of 8 "c # s" ws] by (simp only: append_Cons) simp
    from True t have T: "take 8 (c # (s @ ws)) = ''</think>''" by blast
    have "after_close (c # (s @ ws)) = Some (drop 8 (c # (s @ ws)))"
      by (simp only: after_close.simps T if_True simp_thms)
    moreover have "after_close (c # s) = Some (drop 8 (c # s))"
      by (simp only: after_close.simps True if_True simp_thms)
    ultimately show ?thesis by (simp only: append_Cons d option.map)
  next
    case False
    with t have F: "take 8 (c # (s @ ws)) \<noteq> ''</think>''" by blast
    have "after_close (c # (s @ ws)) = after_close (s @ ws)"
      using F by (simp only: after_close.simps if_False simp_thms)
    moreover have "after_close (c # s) = after_close s"
      using False by (simp only: after_close.simps if_False simp_thms)
    ultimately show ?thesis using Cons by (simp only: append_Cons)
  qed
qed

lemma sub_think_spaces_left:
  "\<forall>c\<in>set ws. is_space c \<Longrightarrow> sub_think (ws @ s) = ws @ sub_think s"
proof (induction ws)
  case Nil
  then show ?case by simp
next
  case (Cons c ws)
  then have "c \<noteq> CHR ''<''" by (auto simp: is_space_def)
  then have "take 7 (c # (ws @ s)) \<noteq> ''<think>''" by auto
  with Cons show ?case by (simp del: take_Cons_numeral)
qed

lemma sub_think_spaces_right:
  assumes "\<forall>c\<in>set ws. is_space c"
  shows "sub_think (s @ ws) = sub_think s @ ws"
proof (induction s rule: sub_think.induct)
  case 1
  show ?case using sub_think_spaces_left [OF assms, of "[]"] by simp
next
  case (2 c cs)
  have t: "(take 7 (c # (cs @ ws)) = ''<think>'') = (take 7 (c # cs) = ''<think>'')"
    using take7_append [OF assms, of "c # cs"] by (simp only: append_Cons)
  show ?case
  proof (cases "take 7 (c # cs) = ''<think>''")
    case True
    with t have T: "take 7 (c # (cs @ ws)) = ''<think>''" by blast
    from True have "7 \<le> length (c # cs)" by (rule take_eq_length) simp
    then have d: "drop 7 (c # (cs @ ws)) = drop 7 (c # cs) @ ws"
      using drop_append [of 7 "c # cs" ws] by (simp only: append_Cons) simp
    have ac: "after_close (drop 7 (c # (cs @ ws)))
                = map_option (\<lambda>r. r @ ws) (after_close (drop 7 (c # cs)))"
      by (simp only: d after_close_append [OF assms])
    show ?thesis
    proof (cases "after_close (drop 7 (c # cs))")
      case None
      have ih: "sub_think (cs @ ws) = sub_think cs @ ws" using 2 True None by blast
      from ac None have acn: "after_close (drop 7 (c # (cs @ ws))) = None" by simp
      have "sub_think (c # (cs @ ws)) = c # sub_think (cs @ ws)"
        by (simp only: sub_think.simps T acn if_True option.case simp_thms)
      moreover have "sub_think (c # cs) = c # sub_think cs"
        by (simp only: sub_think.simps True None if_True option.case simp_thms)
      ultimately show ?thesis using ih by (simp only: append_Cons)
    next
      case (Some rest)
      have ih: "sub_think (rest @ ws) = sub_think rest @ ws" using 2 True Some by blast
      from ac Some have acs: "after_close (drop 7 (c # (cs @ ws))) = Some (rest @ ws)" by simp
      have "sub_think (c # (cs @ ws)) = sub_think (rest @ ws)"
        by (simp only: sub_think.simps T acs if_True option.case simp_thms)
      moreover have "sub_think (c # cs) = sub_think rest"
        by (simp only: sub_think.simps True Some if_True option.case simp_thms)
      ultimately show ?thesis using ih by (simp only: append_Cons)
    qed
  next
    case False
    have ih: "sub_think (cs @ ws) = sub_think cs @ ws" using 2 False by blast
    from False t have F: "take 7 (c # (cs @ ws)) \<noteq> ''<think>''" by blast
    have "sub_think (c # (cs @ ws)) = c # sub_think (cs @ ws)"
      using F by (simp only: sub_think.simps if_False simp_thms)
    moreover have "sub_think (c # cs) = c # sub_think cs"
      using False by (simp only: sub_think.simps if_False simp_thms)
    ultimately show ?thesis using ih by (simp only: append_Cons)
  qed
qed

lemma strip_spaces_left: "\<forall>c\<in>set ws. is_space c \<Longrightarrow> strip (ws @ s) = strip s"
  by (simp add: strip_def dropWhile_append2)

lemma strip_spaces_right:
  assumes "\<forall>c\<in>set ws. is_space c"
  shows "strip (s @ ws) = strip s"
proof (cases "\<forall>c\<in>set s. is_space c")
  case True
  then have a: "dropWhile is_space s = []" by simp
  from True assms have b: "dropWhile is_space (s @ ws) = []" by auto
  show ?thesis unfolding strip_def by (simp only: a b)
next
  case False
  then obtain x where "x \<in> set s" "\<not> is_space x" by blast
  then have "dropWhile is_space (s @ ws) = dropWhile is_space s @ ws"
    by (rule dropWhile_append1)
  moreover have "dropWhile is_space (rev ws @ y) = dropWhile is_space y" for y
    using assms by (intro dropWhile_append2) auto
  ultimately show ?thesis by (simp add: strip_def)
qed

lemma strip_sub_think_strip: "strip (sub_think (strip s)) = strip (sub_think s)"
proof -
  let ?l = "takeWhile is_space s"
  let ?m = "dropWhile is_space s"
  let ?t = "rev (takeWhile is_space (rev ?m))"
  have l: "\<forall>c\<in>set ?l. is_space c" by (auto dest: set_takeWhileD)
  have t: "\<forall>c\<in>set ?t. is_space c" by (auto dest: set_takeWhileD)
  have m: "?m = strip s @ ?t"
    unfolding strip_def by (metis rev_append rev_rev_ident takeWhile_dropWhile_id)
  have "strip (sub_think s) = strip (sub_think (?l @ ?m))" by simp
  also have "\<dots> = strip (sub_think ?m)"
    by (simp only: sub_think_spaces_left [OF l] strip_spaces_left [OF l])
  also have "\<dots> = strip (sub_think (strip s @ ?t))" using m by simp
  also have "\<dots> = strip (sub_think (strip s))"
    by (simp only: sub_think_spaces_right [OF t] strip_spaces_right [OF t])
  finally show ?thesis by simp
qed

section \<open>The pricing reply parser and the three pricing rules\<close>

text \<open>
  Claim C10, as stated, fails: on a reply whose budget is a run of 4301 digits the parser
  returns neither two integers nor two nulls, \<^verbatim>\<open>int()\<close> raises \<^verbatim>\<open>ValueError\<close>.
\<close>

theorem extract_budget_and_deadline_counterexample:
  "extract_budget_and_deadline
     (''Budget: '' @ replicate 4301 (CHR ''1'') @ '' USD, Deadline: 10 days'') = Inl ValueError"
  using extract_long_reply by (simp add: long_reply_def)

text \<open>
  Claim C10, amended. On every text in which the digit runs found after \<^verbatim>\<open>Budget:\<close> and
  \<^verbatim>\<open>Deadline:\<close> have at most 4300 digits, \<open>extract_budget_and_deadline\<close> is all-or-nothing and
  lenient: it returns two integers or two nulls; when one of the two fields is not found
  both results are null, whatever the other run is; and a text in which \<^verbatim>\<open>Budget:\<close> and
  \<^verbatim>\<open>Deadline:\<close> each stand somewhere, followed by optional white space and at least one digit,
  parses whatever surrounds them and in whichever order they come.
\<close>

theorem extract_budget_and_deadline_all_or_nothing:
  "(run_within_limit ''Budget:'' info \<and> run_within_limit ''Deadline:'' info \<longrightarrow>
      extract_budget_and_deadline info = Inr (None, None) \<or>
      (\<exists>b d. extract_budget_and_deadline info = Inr (Some b, Some d)))
   \<and> (re_search ''Budget:'' info = None \<or> re_search ''Deadline:'' info = None \<longrightarrow>
        extract_budget_and_deadline info = Inr (None, None))
   \<and> (info = pre @ ''Budget:'' @ ws @ ds @ post \<and> info = pre' @ ''Deadline:'' @ ws' @ ds' @ post'
        \<and> ds \<noteq> [] \<and> ds' \<noteq> [] \<and> (\<forall>c\<in>set (ds @ ds'). is_digit c)
        \<and> (\<forall>c\<in>set (ws @ ws'). is_space c)
        \<and> run_within_limit ''Budget:'' info \<and> run_within_limit ''Deadline:'' info \<longrightarrow>
        (\<exists>b d. extract_budget_and_deadline info = Inr (Some b, Some d)))"
proof (intro conjI impI)
  assume "run_within_limit ''Budget:'' info \<and> run_within_limit ''Deadline:'' info"
  then show "extract_budget_and_deadline info = Inr (None, None) \<or>
      (\<exists>b d. extract_budget_and_deadline info = Inr (Some b, Some d))"
    by (auto simp: run_within_limit_def extract_budget_and_deadline_def int_of_digits_def
        split: option.splits)
next
  assume "re_search ''Budget:'' info = None \<or> re_search ''Deadline:'' info = None"
  then show "extract_budget_and_deadline info = Inr (None, None)" by (rule extract_missing)
next
  assume a: "info = pre @ ''Budget:'' @ ws @ ds @ post \<and> info = pre' @ ''Deadline:'' @ ws' @ ds' @ post'
        \<and> ds \<noteq> [] \<and> ds' \<noteq> [] \<and> (\<forall>c\<in>set (ds @ ds'). is_digit c)
        \<and> (\<forall>c\<in>set (ws @ ws'). is_space c)
        \<and> run_within_limit ''Budget:'' info \<and> run_within_limit ''Deadline:'' info"
  then have "\<exists>r. re_search ''Budget:'' (pre @ ''Budget:'' @ ws @ ds @ post) = Some r"
    by (intro re_search_found) auto
  moreover from a have "\<exists>r. re_search ''Deadline:'' (pre' @ ''Deadline:'' @ ws' @ ds' @ post') = Some r"
    by (intro re_search_found) auto
  ultimately obtain b d where bd: "re_search ''Budget:'' info = Some b" "re_search ''Deadline:'' info = Some d"
    using a by metis
  with a have "length b \<le> max_str_digits" "length d \<le> max_str_digits"
    by (simp_all add: run_within_limit_def)
  with bd show "\<exists>b d. extract_budget_and_deadline info = Inr (Some b, Some d)"
    by (auto dest: extract_found)
qed

theorem extract_budget_and_deadline_all_or_nothing_witness:
  "extract_budget_and_deadline ''Deadline:3 weeks, my Budget:  250 or so'' = Inr (Some 250, Some 3)
   \<and> re_search ''Deadline:'' ''Budget: 600 USD'' = None
   \<and> extract_budget_and_deadline ''Budget: 600 USD'' = Inr (None, None)"
  using extract_budget_and_deadline_all_or_nothing
    [of "''Deadline:3 weeks, my Budget:  250 or so''" "''Deadline:3 weeks, my ''" "''  ''" "''250''"
        "'' or so''" "[]" "[]" "''3''" "'' weeks, my Budget:  250 or so''"]
    extract_budget_and_deadline_all_or_nothing [of "''Budget: 600 USD''"]
  by (simp add: text_defs run_within_limit_def)

text \<open>
  Claim C4, as stated, fails. For the fixed-price project with rate 2, a reply in the
  requested format whose budget is a run of 309 nines parses, and the division
  \<^verbatim>\<open>budget / rate\<close> raises \<^verbatim>\<open>OverflowError\<close>: no bid is made. And an exchange rate that is absent
  from the listed project is taken as 1 by the filter: the bid amount is the 600 of the
  reply, not 1000.
\<close>

theorem fixed_parsed_bid_amount_counterexample:
  "ep_type fixed_project = Some ''fixed''
   \<and> ep_exchange_rate fixed_project = Some (FloatNum 2)
   \<and> extract_budget_and_deadline (analyze_budget_deadline (reply_llm huge_reply) fixed_project)
       = Inr (Some (10 ^ 309 - 1), Some 10)
   \<and> make_bid (reply_llm huge_reply) fixed_project = Inl OverflowError
   \<and> filter_project demo_world unrated_project = Inr (Some unrated_enriched)
   \<and> ep_exchange_rate unrated_enriched = Some (IntNum 1)
   \<and> extract_budget_and_deadline (analyze_budget_deadline quote_llm unrated_enriched)
       = Inr (Some 600, Some 10)
   \<and> map_sum id bid_amount (make_bid quote_llm unrated_enriched) = Inr 600"
proof -
  have f: "ep_type fixed_project = Some ''fixed''" "ep_exchange_rate fixed_project = Some (FloatNum 2)"
    "ep_minimum_budget fixed_project = Some 200" "ep_maximum_budget fixed_project = Some 800"
    by (simp_all add: fixed_project_def)
  have lo: "lower ''fixed'' = ''fixed''" by (simp add: lower_def lower_char_def)
  have an: "analyze_budget_deadline (reply_llm huge_reply) fixed_project = huge_reply"
    by (rule analyze_reply_llm(1) [OF f(3,4,2)])
  have big: "float_limit \<le> \<bar>real_of_int (max 70 (10 ^ 309 - 1))\<bar>"
    by (simp add: float_limit_def)
  have "price fixed_project huge_reply = Inl OverflowError"
    using price_fixed_parsed [OF f(1) lo extract_huge_reply] big by (simp add: f(2))
  then have 1: "make_bid (reply_llm huge_reply) fixed_project = Inl OverflowError"
    using an by (simp add: make_bid_Inl)
  have 2: "ep_exchange_rate unrated_enriched = Some (IntNum 1)"
    by (simp add: unrated_enriched_def)
  have 3: "extract_budget_and_deadline (analyze_budget_deadline quote_llm unrated_enriched)
       = Inr (Some 600, Some 10)"
    by (simp add: text_defs analyze_budget_deadline_def quote_llm_def unrated_enriched_def
        enriched_listing_def)
  have 4: "map_sum id bid_amount (make_bid quote_llm unrated_enriched) = Inr 600"
    by (simp add: text_defs price_defs quote_llm_def unrated_enriched_def enriched_listing_def
        float_limit_def)
  show ?thesis
    using f(1,2) extract_huge_reply an 1 filter_project_unrated 2 3 4 by simp
qed

text \<open>
  Claim C4, amended. For a fixed-type project whose pricing reply parses to a budget \<open>B\<close> and
  a deadline \<open>D\<close>, the exchange rate \<open>R\<close> is present (under a rate of \<^verbatim>\<open>None\<close> the pricing call
  raises before the service is asked, and the reply is empty). If \<open>R\<close> is not zero and both
  \<open>max 70 B\<close> and \<open>max 70 B / R\<close> are below the float range, the bid amount is \<open>max 70 B / R\<close>
  and the bid period is \<open>D\<close>; if \<open>R\<close> is zero the bid amount is 1000 and the bid period is \<open>D\<close>.
\<close>

theorem fixed_parsed_bid_amount:
  assumes "ep_type project = Some ty" and "lower ty = ''fixed''"
      and "extract_budget_and_deadline (analyze_budget_deadline invoke project)
             = Inr (Some B, Some D)"
  shows "(\<exists>R. ep_exchange_rate project = Some R)
       \<and> (\<forall>R. ep_exchange_rate project = Some R \<and> num_val R \<noteq> 0
              \<and> real_of_int (max 70 B) < float_limit
              \<and> \<bar>real_of_int (max 70 B) / num_val R\<bar> < float_limit \<longrightarrow>
            (\<exists>b. make_bid invoke project = Inr b \<and> bid_project_id b = ep_id project
                 \<and> bid_amount b = real_of_int (max 70 B) / num_val R \<and> bid_period b = Some D))
       \<and> (\<forall>R. ep_exchange_rate project = Some R \<and> num_val R = 0 \<longrightarrow>
            (\<exists>b. make_bid invoke project = Inr b \<and> bid_project_id b = ep_id project
                 \<and> bid_amount b = 1000 \<and> bid_period b = Some D))"
proof (intro conjI allI impI)
  let ?info = "analyze_budget_deadline invoke project"
  show "\<exists>R. ep_exchange_rate project = Some R"
  proof (cases "ep_exchange_rate project")
    case None
    then have "?info = []" by (rule analyze_without_rate)
    with assms(3) show ?thesis by (simp add: extract_empty)
  qed simp
  note p = price_fixed_parsed [OF assms]
  {
    fix R
    assume r: "ep_exchange_rate project = Some R \<and> num_val R \<noteq> 0
              \<and> real_of_int (max 70 B) < float_limit
              \<and> \<bar>real_of_int (max 70 B) / num_val R\<bar> < float_limit"
    then have "\<bar>real_of_int (max 70 B)\<bar> < float_limit" by simp
    with r have "int_truediv (max 70 B) R = Inr (real_of_int (max 70 B) / num_val R)"
      by (intro int_truediv_in_range) simp_all
    with p r have "price project ?info = Inr (real_of_int (max 70 B) / num_val R, Some D)" by simp
    then show "\<exists>b. make_bid invoke project = Inr b \<and> bid_project_id b = ep_id project
                 \<and> bid_amount b = real_of_int (max 70 B) / num_val R \<and> bid_period b = Some D"
      by (rule make_bid_Inr)
  }
  {
    fix R
    assume "ep_exchange_rate project = Some R \<and> num_val R = 0"
    with p have "price project ?info = Inr (1000, Some D)" by simp
    then show "\<exists>b. make_bid invoke project = Inr b \<and> bid_project_id b = ep_id project
                 \<and> bid_amount b = 1000 \<and> bid_period b = Some D"
      by (rule make_bid_Inr)
  }
qed

theorem fixed_parsed_bid_amount_witness:
  "map_sum id (\<lambda>b. (bid_amount b, bid_period b)) (make_bid quote_llm fixed_project) = Inr (300, Some 10)
   \<and> map_sum id (\<lambda>b. (bid_amount b, bid_period b))
        (make_bid quote_llm (fixed_project\<lparr>ep_exchange_rate := Some (IntNum 0)\<rparr>)) = Inr (1000, Some 10)"
proof -
  let ?info = "''Budget: 600 USD, Deadline: 10 days''"
  let ?f0 = "fixed_project\<lparr>ep_exchange_rate := Some (IntNum 0)\<rparr>"
  have ty: "ep_type fixed_project = Some ''fixed''" "ep_type ?f0 = Some ''fixed''"
    by (simp_all add: fixed_project_def)
  have lo: "lower ''fixed'' = ''fixed''" by (simp add: lower_def lower_char_def)
  have an: "analyze_budget_deadline quote_llm fixed_project = ?info"
    "analyze_budget_deadline quote_llm ?f0 = ?info"
    by (simp_all add: analyze_budget_deadline_def quote_llm_def fixed_project_def strip_def is_space_def)
  have ex: "extract_budget_and_deadline ?info = Inr (Some 600, Some 10)" by (simp add: text_defs)
  have r: "ep_exchange_rate fixed_project = Some (FloatNum 2)" "ep_exchange_rate ?f0 = Some (IntNum 0)"
    by (simp_all add: fixed_project_def)
  have lim: "real_of_int (max 70 600) < float_limit" "\<bar>real_of_int (max 70 600) / 2\<bar> < float_limit"
    by (simp_all add: float_limit_def)
  from fixed_parsed_bid_amount [OF ty(1) lo, of quote_llm 600 10] an(1) ex r(1) lim
  obtain b1 where 1: "make_bid quote_llm fixed_project = Inr b1" "bid_amount b1 = 300"
    "bid_period b1 = Some 10" by auto
  from fixed_parsed_bid_amount [OF ty(2) lo, of quote_llm 600 10] an(2) ex r(2)
  obtain b2 where 2: "make_bid quote_llm ?f0 = Inr b2" "bid_amount b2 = 1000"
    "bid_period b2 = Some 10" by auto
  from 1 2 show ?thesis by simp
qed







text \<open>
  Claim C9, as stated, fails: the bid amount is not always at least the floor of 70, nor,
  for a fixed-type project, at least the client's minimum budget. The hourly project is bid
  at the midpoint 15 of its bounds 10 and 20; the fixed-price project with a minimum budget
  of 1000 (exchange rate 1) is bid at the 600 of the pricing reply.
\<close>

theorem bid_amount_floor_counterexample:
  "make_bid quote_llm hourly_project = Inr hourly_bid
   \<and> \<not> 70 \<le> bid_amount hourly_bid
   \<and> make_bid quote_llm costly_fixed_project = Inr costly_fixed_bid
   \<and> ep_type costly_fixed_project = Some ''fixed''
   \<and> ep_minimum_budget costly_fixed_project = Some 1000
   \<and> \<not> 1000 \<le> bid_amount costly_fixed_bid"
  by (simp add: text_defs price_defs quote_llm_def hourly_project_def costly_fixed_project_def
      hourly_bid_def costly_fixed_bid_def float_limit_def)

text \<open>
  Claim C9, amended. For a fixed-type project whose pricing reply does not parse, the bid
  amount is at least 70 and, when the client's maximum budget is not negative, at least the
  client's minimum budget. For a fixed-type project whose reply parses, the floor of 70 is
  applied to the figure in USD before the conversion: with a positive exchange rate \<open>R\<close> the
  bid amount times \<open>R\<close> is at least 70, and with a rate of zero the bid amount is 1000. For a
  project that is not fixed-type the bid amount is the midpoint of the client's bounds, with
  no floor; it is at least the client's minimum when the bounds are in order.
\<close>

theorem bid_amount_floor_amended:
  assumes "make_bid invoke project = Inr b" and "ep_type project = Some ty"
      and "info = analyze_budget_deadline invoke project"
  shows "(lower ty = ''fixed'' \<and> extract_budget_and_deadline info = Inr (None, None) \<longrightarrow>
            70 \<le> bid_amount b
            \<and> (\<forall>mn mx. ep_minimum_budget project = Some mn \<and> ep_maximum_budget project = Some mx
                  \<and> 0 \<le> mx \<longrightarrow> mn \<le> bid_amount b))
       \<and> (lower ty = ''fixed'' \<and> extract_budget_and_deadline info \<noteq> Inr (None, None) \<longrightarrow>
            (\<forall>R. ep_exchange_rate project = Some R \<and> 0 < num_val R \<longrightarrow>
               70 \<le> bid_amount b * num_val R)
            \<and> (\<forall>R. ep_exchange_rate project = Some R \<and> num_val R = 0 \<longrightarrow> bid_amount b = 1000))
       \<and> (lower ty \<noteq> ''fixed'' \<longrightarrow>
            (\<forall>mn mx. ep_minimum_budget project = Some mn \<and> ep_maximum_budget project = Some mx \<longrightarrow>
               bid_amount b = (mn + mx) / 2 \<and> (mn \<le> mx \<longrightarrow> mn \<le> bid_amount b)))"
proof -
  from assms(1,3) have "price project info = Inr (bid_amount b, bid_period b)"
    using make_bid_price [of invoke project] by simp
  from price_floor [OF this assms(2)] show ?thesis by blast
qed

theorem bid_amount_floor_amended_witness:
  "map_sum id bid_amount (make_bid quote_llm (fixed_project\<lparr>ep_exchange_rate := Some (FloatNum 10)\<rparr>)) = Inr 60
   \<and> (70::real) \<le> 60 * 10
   \<and> map_sum id bid_amount (make_bid quote_llm (fixed_project\<lparr>ep_exchange_rate := Some (FloatNum 0)\<rparr>)) = Inr 1000
   \<and> map_sum id bid_amount (make_bid failing_llm fixed_project) = Inr (2200 / 3)
   \<and> (200::real) \<le> 2200 / 3
   \<and> make_bid quote_llm hourly_project = Inr hourly_bid \<and> 10 \<le> bid_amount hourly_bid"
proof -
  let ?f10 = "fixed_project\<lparr>ep_exchange_rate := Some (FloatNum 10)\<rparr>"
  let ?f0 = "fixed_project\<lparr>ep_exchange_rate := Some (FloatNum 0)\<rparr>"
  obtain b1 where 1: "make_bid quote_llm ?f10 = Inr b1" and a1: "bid_amount b1 = 60"
    by (simp add: text_defs price_defs quote_llm_def fixed_project_def float_limit_def)
  obtain b2 where 2: "make_bid quote_llm ?f0 = Inr b2" and a2: "bid_amount b2 = 1000"
    by (simp add: text_defs price_defs quote_llm_def fixed_project_def float_limit_def)
  obtain b3 where 3: "make_bid failing_llm fixed_project = Inr b3" and a3: "bid_amount b3 = 2200 / 3"
    by (simp add: text_defs price_defs failing_llm_def fixed_project_def)
  have 4: "make_bid quote_llm hourly_project = Inr hourly_bid"
    by (simp add: text_defs price_defs quote_llm_def hourly_project_def hourly_bid_def
        float_limit_def)
  have ty: "ep_type ?f10 = Some ''fixed''" "ep_type ?f0 = Some ''fixed''"
    "ep_type fixed_project = Some ''fixed''" "ep_type hourly_project = Some ''hourly''"
    by (simp_all add: fixed_project_def hourly_project_def)
  have lo: "lower ''fixed'' = ''fixed''" "lower ''hourly'' \<noteq> ''fixed''"
    by (simp_all add: lower_def lower_char_def)
  have p: "extract_budget_and_deadline (analyze_budget_deadline quote_llm ?f10) \<noteq> Inr (None, None)"
    "extract_budget_and_deadline (analyze_budget_deadline quote_llm ?f0) \<noteq> Inr (None, None)"
    "extract_budget_and_deadline (analyze_budget_deadline failing_llm fixed_project) = Inr (None, None)"
    by (simp_all add: text_defs analyze_budget_deadline_def quote_llm_def failing_llm_def fixed_project_def)
  have f: "ep_exchange_rate ?f10 = Some (FloatNum 10)" "ep_exchange_rate ?f0 = Some (FloatNum 0)"
    "ep_minimum_budget fixed_project = Some 200" "ep_maximum_budget fixed_project = Some 800"
    "ep_minimum_budget hourly_project = Some 10" "ep_maximum_budget hourly_project = Some 20"
    by (simp_all add: fixed_project_def hourly_project_def)
  from bid_amount_floor_amended [OF 1 ty(1) refl] lo p(1) f(1) have "70 \<le> bid_amount b1 * 10" by simp
  moreover from bid_amount_floor_amended [OF 2 ty(2) refl] lo p(2) f(2) have "bid_amount b2 = 1000" by simp
  moreover from bid_amount_floor_amended [OF 3 ty(3) refl] lo p(3) f(3,4)
  have "200 \<le> bid_amount b3" by simp
  moreover from bid_amount_floor_amended [OF 4 ty(4) refl] lo f(5,6)
  have "10 \<le> bid_amount hourly_bid" by simp
  ultimately show ?thesis using 1 2 3 4 a1 a2 a3 by simp
qed

section \<open>The qualifier\<close>

text \<open>
  Claim C7. The qualifier keeps a project exactly when the reply of the text-generation
  service, with its \<^verbatim>\<open><think>\<close> blocks deleted and the surrounding white space stripped, is
  \<^verbatim>\<open>match\<close> in any letter case; when the call raises, the project is left out and the
  projects before and after it are qualified as they would be without it.
\<close>

theorem qualifier_accepts_iff_match:
  "(project \<in> set (refine_projects_with_llm invoke projects) \<longleftrightarrow>
      project \<in> set projects
      \<and> (\<exists>content. invoke MatchPrompt project = Inr content
            \<and> lower (strip (sub_think content)) = ''match''))
   \<and> (\<forall>e. invoke MatchPrompt project = Inl e \<longrightarrow>
        project \<notin> set (refine_projects_with_llm invoke projects)
        \<and> refine_projects_with_llm invoke (before @ project # after)
            = refine_projects_with_llm invoke before @ refine_projects_with_llm invoke after)"
proof -
  have m: "is_match invoke project \<longleftrightarrow>
        (\<exists>content. invoke MatchPrompt project = Inr content
            \<and> lower (strip (sub_think content)) = ''match'')"
  proof (cases "invoke MatchPrompt project")
    case (Inl e)
    then show ?thesis
      by (simp add: is_match_def check_project_match_with_llm_def lower_def strip_def)
  next
    case (Inr content)
    then show ?thesis
      by (simp add: is_match_def check_project_match_with_llm_def strip_sub_think_strip)
  qed
  show ?thesis
    by (auto simp: refine_filter m)
qed

theorem qualifier_accepts_iff_match_witness:
  "refine_projects_with_llm quote_llm [fixed_project, hourly_project] = [fixed_project, hourly_project]
   \<and> refine_projects_with_llm failing_llm [fixed_project, hourly_project] = []
   \<and> refine_projects_with_llm
        (\<lambda>p project. if project = fixed_project then Inl ApiError else Inr '' Match '')
        [fixed_project, hourly_project] = [hourly_project]"
proof -
  have ne: "fixed_project \<noteq> hourly_project" by (simp add: fixed_project_def hourly_project_def)
  have a: "lower (strip (sub_think ''<think>web shop, fits</think> MATCH'')) = ''match''"
    by (simp add: text_defs)
  have b: "lower (strip (sub_think '' Match '')) = ''match''"
    by (simp add: text_defs)
  let ?mixed = "\<lambda>p project. if project = fixed_project then Inl ApiError else Inr '' Match ''"
  have 1: "fixed_project \<in> set (refine_projects_with_llm quote_llm [fixed_project, hourly_project])"
    using qualifier_accepts_iff_match [of fixed_project quote_llm "[fixed_project, hourly_project]"] a
    by (simp add: quote_llm_def)
  have 2: "refine_projects_with_llm ?mixed ([] @ fixed_project # [hourly_project])
             = refine_projects_with_llm ?mixed [] @ refine_projects_with_llm ?mixed [hourly_project]"
    using qualifier_accepts_iff_match [of fixed_project ?mixed "[]" "[]" "[hourly_project]"]
    by simp
  have 3: "hourly_project \<in> set (refine_projects_with_llm ?mixed [hourly_project])"
    using qualifier_accepts_iff_match [of hourly_project ?mixed "[hourly_project]"] b ne
    by simp
  show ?thesis
    using 1 2 3
    by (simp add: text_defs is_match_def check_project_match_with_llm_def quote_llm_def
        failing_llm_def ne ne [symmetric])
qed

section \<open>The pipeline on the example worlds\<close>

lemma filter_project_demo:
  "filter_project demo_world (listed_project i) = Inr (Some (enriched_listing i))"
  by (simp add: filter_defs world_defs enriched_listing_def lower_def lower_char_def)

lemma filter_owner_fails_1: "filter_project owner_lookup_fails (listed_project 1) = Inl ApiError"
  by (simp add: filter_defs world_defs owner_lookup_fails_def)

lemma filter_owner_fails_2:
  "filter_project owner_lookup_fails (listed_project 2) = Inr (Some (enriched_listing 2))"
  by (simp add: filter_defs world_defs owner_lookup_fails_def enriched_listing_def lower_def lower_char_def)

lemma filter_details_fails_1: "filter_project details_lookup_fails (listed_project 1) = Inl ApiError"
  by (simp add: filter_defs world_defs details_lookup_fails_def lower_def lower_char_def)

lemma filter_details_fails_2:
  "filter_project details_lookup_fails (listed_project 2) = Inr (Some (enriched_listing 2))"
  by (simp add: filter_defs world_defs details_lookup_fails_def enriched_listing_def lower_def lower_char_def)

lemma make_bid_demo: "make_bid quote_llm (enriched_listing i) = Inr (draft i)"
  by (simp add: text_defs price_defs quote_llm_def enriched_listing_def draft_def float_limit_def)

lemma match_demo: "is_match quote_llm p"
  by (simp add: text_defs is_match_def check_project_match_with_llm_def quote_llm_def)

lemma demo_fields:
  "search_projects demo_world = Inr [listed_project 1, listed_project 2, listed_project 3]"
  "chain_invoke demo_world = quote_llm"
  "get_self_user_id demo_world = (\<lambda>project_id. if project_id = 1 then Inl ApiError else Inr 7)"
  "place_project_bid demo_world =
     (\<lambda>project_id. if project_id = 2 then Inl ApiError else Inr (Some (1000 + project_id)))"
  by (simp_all add: demo_world_def)

lemma listed_id: "rp_id (listed_project i) = i"
  by (simp add: listed_project_def)

lemma draft_id: "bid_project_id (draft i) = i"
  by (simp add: draft_def)

lemma place_bid_demo:
  "place_bid demo_world (draft 1) = [GetSelfUserId 1]"
  "place_bid demo_world (draft 2) = [GetSelfUserId 2, PlaceProjectBid 2 7]"
  "place_bid demo_world (draft 3) = [GetSelfUserId 3, PlaceProjectBid 3 7, HighlightProjectBid 1003]"
  by (simp_all add: place_bid_def demo_fields draft_id)

lemma cycle_demo:
  "cycle 2 demo_world initial_state =
     (\<lparr>processed_project_ids = {3, 2, 1}, bid_counter = 2,
       calls = [GetSelfUserId 1, GetSelfUserId 2, PlaceProjectBid 2 7]\<rparr>, None)"
  by (simp add: cycle_def new_projects_def mark_processed_def initial_state_def Let_def
      demo_fields listed_id filter_project_demo match_demo make_bid_demo place_bid_demo)

lemma crash_demo:
  "main_loop 10 [owner_lookup_fails, demo_world] initial_state =
     Crashed ApiError \<lparr>processed_project_ids = {3, 2, 1}, bid_counter = 0, calls = []\<rparr>"
proof -
  have "search_projects owner_lookup_fails = Inr [listed_project 1, listed_project 2, listed_project 3]"
    by (simp add: owner_lookup_fails_def demo_fields)
  then show ?thesis
    by (simp add: cycle_def new_projects_def mark_processed_def initial_state_def Let_def
        listed_id filter_owner_fails_1 main_loop.simps)
qed

text \<open>
  Claim C8 asks that a failing lookup for one project leaves the rest of the batch to be
  filtered. Here the owner lookup, or the detail lookup, raises for project 1: the filter
  raises as a whole although project 2 alone passes it, and the exception ends the run.
\<close>

theorem filter_projects_lookup_failure_aborts:
  "filter_projects owner_lookup_fails [listed_project 1, listed_project 2] = Inl ApiError
   \<and> filter_projects owner_lookup_fails [listed_project 2] = Inr [enriched_listing 2]
   \<and> filter_projects details_lookup_fails [listed_project 1, listed_project 2] = Inl ApiError
   \<and> filter_projects details_lookup_fails [listed_project 2] = Inr [enriched_listing 2]
   \<and> main_loop 10 [owner_lookup_fails, demo_world] initial_state =
       Crashed ApiError \<lparr>processed_project_ids = {3, 2, 1}, bid_counter = 0, calls = []\<rparr>"
  using crash_demo
  by (simp add: filter_owner_fails_1 filter_owner_fails_2 filter_details_fails_1 filter_details_fails_2)

section \<open>The submission loop and the polling loop\<close>

lemma place_bid_attempts: "length (filter is_attempt (place_bid w b)) = 1"
  by (simp add: place_bid_def Let_def split: sum.splits option.splits)

lemma place_bid_placements: "length (filter is_placement (place_bid w b)) \<le> 1"
  by (simp add: place_bid_def Let_def split: sum.splits option.splits)

lemma submit_bids_stop: "limit \<le> bid_counter s \<Longrightarrow> submit_bids limit w bs s = s"
  by (cases bs) auto

lemma submit_bids_processed:
  "processed_project_ids (submit_bids limit w bs s) = processed_project_ids s"
  by (induction bs arbitrary: s) auto

lemma submit_bids_counter:
  "bid_counter s \<le> limit \<Longrightarrow>
   bid_counter (submit_bids limit w bs s) = min limit (bid_counter s + int (length bs))"
  by (induction bs arbitrary: s) auto

lemma submit_bids_mono: "bid_counter s \<le> bid_counter (submit_bids limit w bs s)"
proof (induction bs arbitrary: s)
  case Nil
  show ?case by simp
next
  case (Cons b bs)
  have "bid_counter s + 1 \<le>
        bid_counter (submit_bids limit w bs (s\<lparr>calls := calls s @ place_bid w b, bid_counter := bid_counter s + 1\<rparr>))"
    using Cons [of "s\<lparr>calls := calls s @ place_bid w b, bid_counter := bid_counter s + 1\<rparr>"] by simp
  then show ?case by simp
qed

lemma submit_bids_counted: "counted s \<Longrightarrow> counted (submit_bids limit w bs s)"
proof (induction bs arbitrary: s)
  case Nil
  then show ?case by simp
next
  case (Cons b bs)
  have "counted (s\<lparr>calls := calls s @ place_bid w b, bid_counter := bid_counter s + 1\<rparr>)"
    using Cons.prems place_bid_attempts [of w b] place_bid_placements [of w b]
    by (simp add: counted_def)
  then show ?case using Cons by simp
qed

lemma mark_processed_ids:
  "processed_project_ids (mark_processed ps s) = processed_project_ids s \<union> set (map rp_id ps)"
proof -
  have "foldl (\<lambda>ids p. insert (rp_id p) ids) A ps = A \<union> set (map rp_id ps)" for A
    by (induction ps arbitrary: A) auto
  then show ?thesis by (simp add: mark_processed_def)
qed

lemma mark_processed_other:
  "bid_counter (mark_processed ps s) = bid_counter s" "calls (mark_processed ps s) = calls s"
  by (simp_all add: mark_processed_def)

lemma new_projects_ids:
  "set (map rp_id (new_projects s projects)) = set (map rp_id projects) - processed_project_ids s"
  by (auto simp: new_projects_def)

lemma cycle_cases:
  obtains (fetch_failed) e where "search_projects w = Inl e" "cycle limit w s = (s, None)"
  | (raised) projects e where "search_projects w = Inr projects"
      "cycle limit w s = (mark_processed (new_projects s projects) s, Some e)"
  | (submitted) projects bids where "search_projects w = Inr projects"
      "cycle limit w s = (submit_bids limit w bids (mark_processed (new_projects s projects) s), None)"
proof (cases "search_projects w")
  case (Inl e)
  then have "cycle limit w s = (s, None)" by (simp add: cycle_def)
  with Inl show ?thesis by (rule fetch_failed)
next
  case (Inr projects)
  let ?s = "mark_processed (new_projects s projects) s"
  show ?thesis
  proof (cases "filter_projects w (new_projects s projects)")
    case (Inl e)
    with Inr have "cycle limit w s = (?s, Some e)" by (simp add: cycle_def Let_def)
    with Inr show ?thesis by (rule raised)
  next
    case filtered: (Inr filtered_projects)
    let ?refined = "refine_projects_with_llm (chain_invoke w) filtered_projects"
    show ?thesis
    proof (cases "shortlist_projects_and_generate_bids (chain_invoke w) ?refined")
      case (Inl e)
      with Inr filtered have "cycle limit w s = (?s, Some e)" by (simp add: cycle_def Let_def)
      with Inr show ?thesis by (rule raised)
    next
      case bids: (Inr shortlisted_bids)
      with Inr filtered have "cycle limit w s = (submit_bids limit w shortlisted_bids ?s, None)"
        by (simp add: cycle_def Let_def)
      with Inr show ?thesis by (rule submitted)
    qed
  qed
qed

lemma cycle_processed:
  "search_projects w = Inr projects \<Longrightarrow>
   processed_project_ids (fst (cycle limit w s)) =
     processed_project_ids s \<union> set (map rp_id (new_projects s projects))"
  by (cases rule: cycle_cases [of w limit s])
     (auto simp: submit_bids_processed mark_processed_ids)

lemma cycle_processed_mono: "processed_project_ids s \<subseteq> processed_project_ids (fst (cycle limit w s))"
  by (cases rule: cycle_cases [of w limit s])
     (auto simp: submit_bids_processed mark_processed_ids)

lemma cycle_mono: "bid_counter s \<le> bid_counter (fst (cycle limit w s))"
  by (cases rule: cycle_cases [of w limit s])
     (use submit_bids_mono [of "mark_processed ps s" limit w for ps] in \<open>auto simp: mark_processed_other\<close>)

lemma cycle_cap: "bid_counter s \<le> limit \<Longrightarrow> bid_counter (fst (cycle limit w s)) \<le> limit"
  by (cases rule: cycle_cases [of w limit s])
     (auto simp: submit_bids_counter mark_processed_other)

lemma cycle_counted: "counted s \<Longrightarrow> counted (fst (cycle limit w s))"
proof (cases rule: cycle_cases [of w limit s])
  case (submitted projects bids)
  assume "counted s"
  then have "counted (mark_processed (new_projects s projects) s)"
    by (simp add: counted_def mark_processed_other)
  then show ?thesis using submitted by (simp add: submit_bids_counted)
qed (simp_all add: counted_def mark_processed_other)

lemma cycle_raised_below:
  "cycle limit w s = (s', Some e) \<Longrightarrow> bid_counter s' = bid_counter s"
  by (cases rule: cycle_cases [of w limit s]) (auto simp: mark_processed_other)

lemma main_loop_stopped: "limit \<le> bid_counter s \<Longrightarrow> main_loop limit ws s = Stopped s"
  by (subst main_loop.simps) simp

lemma main_loop_step:
  "bid_counter s < limit \<Longrightarrow>
   main_loop limit (w # ws) s =
     (case cycle limit w s of (s', Some e) \<Rightarrow> Crashed e s' | (s', None) \<Rightarrow> main_loop limit ws s')"
  by (subst main_loop.simps) simp

lemma main_loop_Nil: "bid_counter s < limit \<Longrightarrow> main_loop limit [] s = Polling s"
  by (subst main_loop.simps) simp

lemma main_loop_invariant:
  assumes step: "\<And>s w. P s \<Longrightarrow> P (fst (cycle limit w s))"
  shows "P s \<Longrightarrow> P (run_state (main_loop limit ws s))"
proof (induction ws arbitrary: s)
  case Nil
  then show ?case by (cases "bid_counter s < limit") (simp_all add: main_loop_Nil main_loop_stopped)
next
  case (Cons w ws)
  show ?case
  proof (cases "bid_counter s < limit")
    case False
    then show ?thesis using Cons.prems by (simp add: main_loop_stopped)
  next
    case True
    obtain s' r where c: "cycle limit w s = (s', r)" by (cases "cycle limit w s")
    have "P s'" using step [OF Cons.prems, of w] c by simp
    then show ?thesis using True c Cons.IH [of s']
      by (cases r) (simp_all add: main_loop_step)
  qed
qed

lemma main_loop_mono: "bid_counter s \<le> bid_counter (run_state (main_loop limit ws s))"
proof (rule main_loop_invariant [where P = "\<lambda>t. bid_counter s \<le> bid_counter t"])
  fix t :: state and w
  assume "bid_counter s \<le> bid_counter t"
  also have "\<dots> \<le> bid_counter (fst (cycle limit w t))" by (rule cycle_mono)
  finally show "bid_counter s \<le> bid_counter (fst (cycle limit w t))" .
qed simp

lemma main_loop_cap:
  "bid_counter s \<le> limit \<Longrightarrow> bid_counter (run_state (main_loop limit ws s)) \<le> limit"
  by (rule main_loop_invariant [where P = "\<lambda>t. bid_counter t \<le> limit"]) (auto intro: cycle_cap)

lemma main_loop_counted: "counted s \<Longrightarrow> counted (run_state (main_loop limit ws s))"
  by (rule main_loop_invariant [where P = counted]) (auto intro: cycle_counted)

lemma main_loop_processed_mono:
  "processed_project_ids s \<subseteq> processed_project_ids (run_state (main_loop limit ws s))"
proof (rule main_loop_invariant [where P = "\<lambda>t. processed_project_ids s \<subseteq> processed_project_ids t"])
  fix t :: state and w
  assume "processed_project_ids s \<subseteq> processed_project_ids t"
  also have "\<dots> \<subseteq> processed_project_ids (fst (cycle limit w t))" by (rule cycle_processed_mono)
  finally show "processed_project_ids s \<subseteq> processed_project_ids (fst (cycle limit w t))" .
qed simp

lemma main_loop_append:
  "main_loop limit (ws @ ws') s =
     (case main_loop limit ws s of Polling s' \<Rightarrow> main_loop limit ws' s' | r \<Rightarrow> r)"
proof (induction ws arbitrary: s)
  case Nil
  then show ?case
    by (cases "bid_counter s < limit") (simp_all add: main_loop_Nil main_loop_stopped)
next
  case (Cons w ws)
  show ?case
  proof (cases "bid_counter s < limit")
    case False
    then show ?thesis by (simp add: main_loop_stopped)
  next
    case True
    obtain s' r where c: "cycle limit w s = (s', r)" by (cases "cycle limit w s")
    show ?thesis using True c Cons [of s'] by (cases r) (simp_all add: main_loop_step)
  qed
qed

lemma main_loop_at_cap:
  "limit \<le> bid_counter (run_state (main_loop limit ws s)) \<Longrightarrow>
   main_loop limit ws s = Stopped (run_state (main_loop limit ws s))"
proof (induction ws arbitrary: s)
  case Nil
  then show ?case
    by (cases "bid_counter s < limit") (simp_all add: main_loop_Nil main_loop_stopped)
next
  case (Cons w ws)
  show ?case
  proof (cases "bid_counter s < limit")
    case False
    then show ?thesis by (simp add: main_loop_stopped)
  next
    case True
    obtain s' r where c: "cycle limit w s = (s', r)" by (cases "cycle limit w s")
    show ?thesis
    proof (cases r)
      case None
      with True c Cons show ?thesis by (simp add: main_loop_step)
    next
      case (Some e)
      with c have "bid_counter s' = bid_counter s" by (auto dest: cycle_raised_below)
      with True c Some Cons.prems show ?thesis by (simp add: main_loop_step)
    qed
  qed
qed

text \<open>
  Claim C1. In every run that starts from an empty processed set and a counter of 0, with a
  cap that is not negative, the bid counter never decreases as the run goes on (\<open>ws\<close> then
  \<open>ws'\<close>), never exceeds the cap, equals the number of submission attempts and bounds the number
  of placement calls; once it has reached the cap the loop has stopped, whatever cycles might
  follow change nothing, and neither the submission loop nor the polling loop does anything
  from a state at the cap.
\<close>

theorem bid_counter_capped:
  assumes "0 \<le> limit"
  shows "bid_counter (run_state (main_loop limit ws initial_state))
           \<le> bid_counter (run_state (main_loop limit (ws @ ws') initial_state))
       \<and> bid_counter (run_state (main_loop limit (ws @ ws') initial_state)) \<le> limit
       \<and> int (length (filter is_attempt (calls (run_state (main_loop limit ws initial_state)))))
           = bid_counter (run_state (main_loop limit ws initial_state))
       \<and> int (length (filter is_placement (calls (run_state (main_loop limit ws initial_state)))))
           \<le> bid_counter (run_state (main_loop limit ws initial_state))
       \<and> (limit \<le> bid_counter (run_state (main_loop limit ws initial_state)) \<longrightarrow>
            main_loop limit ws initial_state = Stopped (run_state (main_loop limit ws initial_state))
            \<and> main_loop limit (ws @ ws') initial_state = main_loop limit ws initial_state)
       \<and> (limit \<le> bid_counter s \<longrightarrow>
            submit_bids limit w bs s = s \<and> main_loop limit ws s = Stopped s)"
proof (intro conjI impI)
  let ?r = "main_loop limit ws initial_state"
  have init: "bid_counter initial_state \<le> limit" "counted initial_state"
    using assms by (simp_all add: initial_state_def counted_def)
  show "bid_counter (run_state ?r) \<le> bid_counter (run_state (main_loop limit (ws @ ws') initial_state))"
    by (cases ?r) (simp_all add: main_loop_append main_loop_mono)
  show "bid_counter (run_state (main_loop limit (ws @ ws') initial_state)) \<le> limit"
    using init(1) by (rule main_loop_cap)
  from main_loop_counted [OF init(2), of limit ws]
  show "int (length (filter is_attempt (calls (run_state ?r)))) = bid_counter (run_state ?r)"
    and "int (length (filter is_placement (calls (run_state ?r)))) \<le> bid_counter (run_state ?r)"
    by (simp_all add: counted_def)
  {
    assume "limit \<le> bid_counter (run_state ?r)"
    then show st: "?r = Stopped (run_state ?r)" by (rule main_loop_at_cap)
    then have "(case ?r of Polling s' \<Rightarrow> main_loop limit ws' s' | r \<Rightarrow> r) = ?r"
      by (cases ?r) simp_all
    then show "main_loop limit (ws @ ws') initial_state = ?r"
      by (simp only: main_loop_append)
  }
  {
    assume "limit \<le> bid_counter s"
    then show "submit_bids limit w bs s = s" and "main_loop limit ws s = Stopped s"
      by (simp_all add: submit_bids_stop main_loop_stopped)
  }
qed

theorem bid_counter_capped_witness:
  "main_loop 2 [demo_world] initial_state =
     Stopped \<lparr>processed_project_ids = {3, 2, 1}, bid_counter = 2,
              calls = [GetSelfUserId 1, GetSelfUserId 2, PlaceProjectBid 2 7]\<rparr>
   \<and> main_loop 2 ([demo_world] @ [demo_world, demo_world]) initial_state
       = main_loop 2 [demo_world] initial_state
   \<and> bid_counter (run_state (main_loop BID_LIMIT ([demo_world] @ [demo_world]) initial_state)) \<le> BID_LIMIT"
proof -
  have 1: "main_loop 2 [demo_world] initial_state =
     Stopped \<lparr>processed_project_ids = {3, 2, 1}, bid_counter = 2,
              calls = [GetSelfUserId 1, GetSelfUserId 2, PlaceProjectBid 2 7]\<rparr>"
    using cycle_demo by (simp add: initial_state_def main_loop.simps)
  have 2: "(0::int) \<le> 2" by simp
  have 3: "0 \<le> BID_LIMIT" by (simp add: BID_LIMIT_def)
  show ?thesis
    using bid_counter_capped [OF 2, of "[demo_world]" "[demo_world, demo_world]"]
          bid_counter_capped [OF 3, of "[demo_world]" "[demo_world]"] 1
    by simp
qed

text \<open>
  Claim C2. In a cycle whose search succeeds, the new projects are the fetched ones whose
  identifier is not yet processed; their identifiers are all in the processed set once the
  cycle is over, also when the filter raises; the set only grows in the cycles \<open>ws\<close> that
  follow; and the new projects of any later cycle, whatever its batch \<open>projects'\<close>, share no
  identifier with those of this cycle.
\<close>

theorem dedup_across_cycles:
  assumes "search_projects w = Inr projects"
      and "s1 = fst (cycle limit w s)"
      and "s2 = run_state (main_loop limit ws s1)"
  shows "set (map rp_id (new_projects s projects)) = set (map rp_id projects) - processed_project_ids s
       \<and> processed_project_ids s1
           = processed_project_ids s \<union> set (map rp_id (new_projects s projects))
       \<and> (\<forall>e. filter_projects w (new_projects s projects) = Inl e \<longrightarrow>
             cycle limit w s = (mark_processed (new_projects s projects) s, Some e))
       \<and> processed_project_ids s1 \<subseteq> processed_project_ids s2
       \<and> set (map rp_id (new_projects s2 projects')) \<inter> set (map rp_id (new_projects s projects)) = {}"
proof (intro conjI allI impI)
  show a: "set (map rp_id (new_projects s projects)) = set (map rp_id projects) - processed_project_ids s"
    by (rule new_projects_ids)
  show b: "processed_project_ids s1
           = processed_project_ids s \<union> set (map rp_id (new_projects s projects))"
    using assms(1,2) by (simp add: cycle_processed)
  show c: "processed_project_ids s1 \<subseteq> processed_project_ids s2"
    using assms(3) by (simp add: main_loop_processed_mono)
  have "set (map rp_id (new_projects s projects)) \<subseteq> processed_project_ids s2"
    using b c by blast
  then show "set (map rp_id (new_projects s2 projects')) \<inter> set (map rp_id (new_projects s projects)) = {}"
    unfolding new_projects_ids [of s2] by blast
next
  fix e
  assume "filter_projects w (new_projects s projects) = Inl e"
  then show "cycle limit w s = (mark_processed (new_projects s projects) s, Some e)"
    using assms(1) by (simp add: cycle_def Let_def)
qed

theorem dedup_across_cycles_witness:
  "map rp_id (new_projects initial_state [listed_project 1, listed_project 2, listed_project 3]) = [1, 2, 3]
   \<and> processed_project_ids (fst (cycle 10 owner_lookup_fails initial_state)) = {1, 2, 3}
   \<and> cycle 10 owner_lookup_fails initial_state =
        (mark_processed [listed_project 1, listed_project 2, listed_project 3] initial_state, Some ApiError)
   \<and> set (map rp_id (new_projects (run_state (main_loop 10 [demo_world] (fst (cycle 10 demo_world initial_state))))
          [listed_project 3, listed_project 4])) \<inter> {1, 2, 3} = {}"
proof -
  let ?ps = "[listed_project 1, listed_project 2, listed_project 3]"
  have s: "search_projects owner_lookup_fails = Inr ?ps" "search_projects demo_world = Inr ?ps"
    by (simp_all add: owner_lookup_fails_def demo_fields)
  have e: "processed_project_ids initial_state = {}" by (simp add: initial_state_def)
  have n: "new_projects initial_state ?ps = ?ps"
    by (simp add: new_projects_def e)
  have f: "filter_projects owner_lookup_fails ?ps = Inl ApiError"
    by (simp add: filter_owner_fails_1)
  have i: "set (map rp_id ?ps) = {1, 2, 3}" by (simp add: listed_id)
  note A = dedup_across_cycles [where limit = 10 and s = initial_state and ws = "[]"
             and projects' = "[]", OF s(1) refl refl, unfolded n e i]
  note B = dedup_across_cycles [where limit = 10 and s = initial_state and ws = "[demo_world]"
             and projects' = "[listed_project 3, listed_project 4]", OF s(2) refl refl, unfolded n e i]
  have 1: "map rp_id (new_projects initial_state ?ps) = [1, 2, 3]" by (simp add: n listed_id)
  have 2: "processed_project_ids (fst (cycle 10 owner_lookup_fails initial_state)) = {1, 2, 3}"
    using A by simp
  have 3: "cycle 10 owner_lookup_fails initial_state = (mark_processed ?ps initial_state, Some ApiError)"
    using A f by simp
  have 4: "set (map rp_id (new_projects (run_state (main_loop 10 [demo_world] (fst (cycle 10 demo_world initial_state))))
          [listed_project 3, listed_project 4])) \<inter> {1, 2, 3} = {}"
    using B by blast
  from 1 2 3 4 show ?thesis by blast
qed

text \<open>
  Claim C3, as stated, fails: a draft whose identity resolution fails makes no placement call
  and yet the bid counter goes from 0 to 1.
\<close>

theorem identity_failure_counterexample:
  "get_self_user_id demo_world (bid_project_id (draft 1)) = Inl ApiError
   \<and> submit_bids 10 demo_world [draft 1] initial_state =
       \<lparr>processed_project_ids = {}, bid_counter = 1, calls = [GetSelfUserId 1]\<rparr>
   \<and> bid_counter initial_state = 0"
  by (simp add: initial_state_def place_bid_demo demo_fields draft_id)

text \<open>
  Claim C3, amended. For a draft reached below the cap: when identity resolution fails,
  \<open>place_bid\<close> makes no placement call, and when it succeeds the placement call is made; either
  way the loop goes on with the remaining drafts and the bid counter has grown by one, so that
  the counter after the loop depends on the number of drafts only.
\<close>

theorem place_bid_counts_every_draft:
  assumes "bid_counter s < limit"
  shows "(\<forall>e. get_self_user_id w (bid_project_id b) = Inl e \<longrightarrow>
            place_bid w b = [GetSelfUserId (bid_project_id b)])
       \<and> (\<forall>uid. get_self_user_id w (bid_project_id b) = Inr uid \<longrightarrow>
            PlaceProjectBid (bid_project_id b) uid \<in> set (place_bid w b))
       \<and> submit_bids limit w (b # bs) s =
           submit_bids limit w bs (s\<lparr>calls := calls s @ place_bid w b, bid_counter := bid_counter s + 1\<rparr>)
       \<and> bid_counter (submit_bids limit w (b # bs) s) = min limit (bid_counter s + 1 + int (length bs))"
proof -
  have "bid_counter s \<le> limit" using assms by simp
  from submit_bids_counter [OF this, of w "b # bs"]
  have "bid_counter (submit_bids limit w (b # bs) s) = min limit (bid_counter s + 1 + int (length bs))"
    by (simp add: algebra_simps)
  then show ?thesis using assms by (auto simp: place_bid_def Let_def)
qed

theorem place_bid_counts_every_draft_witness:
  "submit_bids 10 demo_world [draft 1, draft 2, draft 3] initial_state =
     \<lparr>processed_project_ids = {}, bid_counter = 3,
      calls = [GetSelfUserId 1, GetSelfUserId 2, PlaceProjectBid 2 7,
               GetSelfUserId 3, PlaceProjectBid 3 7, HighlightProjectBid 1003]\<rparr>
   \<and> place_bid demo_world (draft 1) = [GetSelfUserId (bid_project_id (draft 1))]"
proof -
  have 1: "bid_counter initial_state < 10" by (simp add: initial_state_def)
  have 2: "get_self_user_id demo_world (bid_project_id (draft 1)) = Inl ApiError"
    by (simp add: demo_fields draft_id)
  show ?thesis
    using place_bid_counts_every_draft [OF 1, of demo_world "draft 1" "[draft 2, draft 3]"] 2
    by (simp add: initial_state_def place_bid_demo draft_id)
qed

end
